theory Spec2Isabelle
  imports Complex_Main "HOL-Library.AList"
begin

section \<open>Python values used by the price tracker\<close>

text \<open>
  The program handles parsed JSON documents, Python strings and exceptions. A parsed JSON
  object is a Python dict: an association list in insertion order whose keys are distinct.
  Strings are lists of code points below 256, the Latin-1 range of Python's \<open>str\<close>.
\<close>

text \<open>
  A Python float: a finite value, written as the real number it stands for (the rounding
  to a double is not modelled), an infinity or a NaN. The clock readings of \<open>time.time()\<close>
  are finite and kept as reals.
\<close>

datatype pyfloat = Fin real | PosInf | NegInf | NaN

datatype json =
    JNull
  | JBool bool
  | JInt int
  | JFloat pyfloat
  | JStr string
  | JArr "json list"
  | JObj "(string \<times> json) list"

text \<open>
  Exceptions. All of them derive from Python's \<open>Exception\<close> except the last two, which derive
  from \<open>BaseException\<close> only and stand for termination of the process from outside.
\<close>

datatype exn =
    RequestException
  | HTTPError
  | JSONDecodeError
  | RuntimeError string "json option"
  | KeyError
  | AttributeError
  | TypeError
  | ValueError
  | IndexError
  | StopIteration
  | OverflowError
  | OSError
  | GSpreadException
  | KeyboardInterrupt
  | SystemExit

fun is_Exception :: "exn \<Rightarrow> bool" where
  "is_Exception KeyboardInterrupt = False"
| "is_Exception SystemExit = False"
| "is_Exception _ = True"

subsection \<open>String methods\<close>

text \<open>
  \<open>s.upper()\<close>: the letters a to z and the lower-case letters of the range U+00E0 to U+00FE
  go to their capitals, U+00DF goes to "SS", every other code point stays. (The capitals of
  U+00B5 and U+00FF lie above the range; strings with these two code points are outside the
  model.)
\<close>

definition lower_letters :: string where
  "lower_letters = ''abcdefghijklmnopqrstuvwxyz'' @
       [CHR 0xE0, CHR 0xE1, CHR 0xE2, CHR 0xE3, CHR 0xE4, CHR 0xE5, CHR 0xE6, CHR 0xE7,
        CHR 0xE8, CHR 0xE9, CHR 0xEA, CHR 0xEB, CHR 0xEC, CHR 0xED, CHR 0xEE, CHR 0xEF,
        CHR 0xF0, CHR 0xF1, CHR 0xF2, CHR 0xF3, CHR 0xF4, CHR 0xF5, CHR 0xF6, CHR 0xF8,
        CHR 0xF9, CHR 0xFA, CHR 0xFB, CHR 0xFC, CHR 0xFD, CHR 0xFE]"

definition upper_letters :: string where
  "upper_letters = ''ABCDEFGHIJKLMNOPQRSTUVWXYZ'' @
       [CHR 0xC0, CHR 0xC1, CHR 0xC2, CHR 0xC3, CHR 0xC4, CHR 0xC5, CHR 0xC6, CHR 0xC7,
        CHR 0xC8, CHR 0xC9, CHR 0xCA, CHR 0xCB, CHR 0xCC, CHR 0xCD, CHR 0xCE, CHR 0xCF,
        CHR 0xD0, CHR 0xD1, CHR 0xD2, CHR 0xD3, CHR 0xD4, CHR 0xD5, CHR 0xD6, CHR 0xD8,
        CHR 0xD9, CHR 0xDA, CHR 0xDB, CHR 0xDC, CHR 0xDD, CHR 0xDE]"

definition upper_char :: "char \<Rightarrow> string" where
  "upper_char c =
     (if c = CHR 0xDF then ''SS''
      else case map_of (zip lower_letters upper_letters) c of
             Some u \<Rightarrow> [u]
           | None \<Rightarrow> [c])"

definition upper :: "string \<Rightarrow> string" where
  "upper s = concat (map upper_char s)"

text \<open>The code points below 256 that \<open>str.strip()\<close> removes.\<close>

definition is_space :: "char \<Rightarrow> bool" where
  "is_space c = (c \<in> set [CHR 0x09, CHR 0x0A, CHR 0x0B, CHR 0x0C, CHR 0x0D,
                            CHR 0x1C, CHR 0x1D, CHR 0x1E, CHR 0x1F, CHR 0x20, CHR 0x85, CHR 0xA0])"

definition strip :: "string \<Rightarrow> string" where
  "strip s = rev (dropWhile is_space (rev (dropWhile is_space s)))"

text \<open>\<open>s.replace(c, "")\<close> for a one-character \<open>c\<close>: every occurrence is removed.\<close>

definition replace_empty :: "char \<Rightarrow> string \<Rightarrow> string" where
  "replace_empty c s = filter (\<lambda>d. d \<noteq> c) s"

subsection \<open>Operations on parsed JSON\<close>

text \<open>Python truthiness.\<close>

fun truthy :: "json \<Rightarrow> bool" where
  "truthy JNull = False"
| "truthy (JBool b) = b"
| "truthy (JInt n) = (n \<noteq> 0)"
| "truthy (JFloat f) = (f \<noteq> Fin 0)"
| "truthy (JStr s) = (s \<noteq> [])"
| "truthy (JArr xs) = (xs \<noteq> [])"
| "truthy (JObj kvs) = (kvs \<noteq> [])"

text \<open>\<open>d.get(k)\<close>: only a dict has the method; a missing key gives \<open>None\<close>.\<close>

fun py_get :: "json \<Rightarrow> string \<Rightarrow> exn + json option" where
  "py_get (JObj kvs) k = Inr (map_of kvs k)"
| "py_get _ k = Inl AttributeError"

text \<open>\<open>d.items()\<close>.\<close>

fun py_items :: "json \<Rightarrow> exn + (string \<times> json) list" where
  "py_items (JObj kvs) = Inr kvs"
| "py_items _ = Inl AttributeError"

text \<open>Indexing a list or a string with a Python integer; negative indices count from the end.\<close>

definition seq_index :: "'a list \<Rightarrow> int \<Rightarrow> exn + 'a" where
  "seq_index xs i =
     (if 0 \<le> i
      then (if nat i < length xs then Inr (xs ! nat i) else Inl IndexError)
      else (if nat (- i) \<le> length xs then Inr (xs ! (length xs - nat (- i))) else Inl IndexError))"

text \<open>\<open>obj[key]\<close>.\<close>

fun py_getitem :: "json \<Rightarrow> json \<Rightarrow> exn + json" where
  "py_getitem (JObj kvs) (JStr k) = (case map_of kvs k of Some v \<Rightarrow> Inr v | None \<Rightarrow> Inl KeyError)"
| "py_getitem (JObj kvs) (JArr ks) = Inl TypeError"
| "py_getitem (JObj kvs) (JObj ks) = Inl TypeError"
| "py_getitem (JObj kvs) k = Inl KeyError"
| "py_getitem (JArr xs) (JInt i) = seq_index xs i"
| "py_getitem (JArr xs) (JBool b) = seq_index xs (if b then 1 else 0)"
| "py_getitem (JArr xs) k = Inl TypeError"
| "py_getitem (JStr s) (JInt i) = (case seq_index s i of Inl e \<Rightarrow> Inl e | Inr c \<Rightarrow> Inr (JStr [c]))"
| "py_getitem (JStr s) (JBool b) =
     (case seq_index s (if b then 1 else 0) of Inl e \<Rightarrow> Inl e | Inr c \<Rightarrow> Inr (JStr [c]))"
| "py_getitem (JStr s) k = Inl TypeError"
| "py_getitem obj k = Inl TypeError"

text \<open>\<open>next(iter(obj))\<close>: the first key of a dict, the first element of a list or string.\<close>

fun py_next_iter :: "json \<Rightarrow> exn + json" where
  "py_next_iter (JObj []) = Inl StopIteration"
| "py_next_iter (JObj ((k, v) # kvs)) = Inr (JStr k)"
| "py_next_iter (JArr []) = Inl StopIteration"
| "py_next_iter (JArr (x # xs)) = Inr x"
| "py_next_iter (JStr []) = Inl StopIteration"
| "py_next_iter (JStr (c # cs)) = Inr (JStr [c])"
| "py_next_iter obj = Inl TypeError"

text \<open>
  \<open>float(x)\<close>. The parser of strings is a parameter \<open>pf\<close>: it gives \<open>None\<close> on a string
  that is not a number, where Python raises \<open>ValueError\<close>. An integer that rounds to a
  double beyond the largest one raises \<open>OverflowError\<close>.
\<close>

definition float_limit :: int where
  "float_limit = 2 ^ 1024 - 2 ^ 970"

fun py_float :: "(string \<Rightarrow> pyfloat option) \<Rightarrow> json \<Rightarrow> exn + pyfloat" where
  "py_float pf (JStr s) = (case pf s of Some f \<Rightarrow> Inr f | None \<Rightarrow> Inl ValueError)"
| "py_float pf (JInt n) =
     (if \<bar>n\<bar> < float_limit then Inr (Fin (of_int n)) else Inl OverflowError)"
| "py_float pf (JFloat f) = Inr f"
| "py_float pf (JBool b) = Inr (Fin (if b then 1 else 0))"
| "py_float pf obj = Inl TypeError"

subsection \<open>HTTP responses\<close>

record response =
  status_code :: nat
  body :: "json option"

text \<open>\<open>r.raise_for_status()\<close> raises on a 4xx or 5xx status.\<close>

definition raise_for_status :: "response \<Rightarrow> exn option" where
  "raise_for_status r = (if 400 \<le> status_code r \<and> status_code r < 600 then Some HTTPError else None)"

text \<open>\<open>r.json()\<close>: a body that is not JSON raises.\<close>

definition response_json :: "response \<Rightarrow> exn + json" where
  "response_json r = (case body r of None \<Rightarrow> Inl JSONDecodeError | Some d \<Rightarrow> Inr d)"

section \<open>Configuration\<close>

record config =
  SPREADSHEET_NAME :: string
  WORKSHEET_NAME :: string
  QUOTE_CCY_env :: string
  POLL_INTERVAL_SECS :: int
  ASSET_PAIRS_REFRESH_SECS :: int
  REQUEST_TIMEOUT :: int

definition default_config :: config where
  "default_config =
     \<lparr> SPREADSHEET_NAME = ''Crypto Papertrader'', WORKSHEET_NAME = ''tab'',
       QUOTE_CCY_env = ''USD'', POLL_INTERVAL_SECS = 60, ASSET_PAIRS_REFRESH_SECS = 600,
       REQUEST_TIMEOUT = 15 \<rparr>"

definition QUOTE_CCY :: "config \<Rightarrow> string" where
  "QUOTE_CCY cfg = upper (QUOTE_CCY_env cfg)"

definition KRAKEN_BASE :: string where
  "KRAKEN_BASE = ''https://api.kraken.com/0/public''"

definition BASE_ALIASES :: "(string \<times> string) list" where
  "BASE_ALIASES =
     [(''BTC'', ''XBT''), (''XBT'', ''XBT''), (''DOGE'', ''XDG''), (''XDG'', ''XDG''),
      (''BITCOIN'', ''XBT''), (''ETHEREUM'', ''ETH''), (''ETH'', ''ETH''), (''ADA'', ''ADA''),
      (''CARDANO'', ''ADA''), (''XRP'', ''XRP''), (''RIPPLE'', ''XRP''), (''SOL'', ''SOL''),
      (''SOLANA'', ''SOL''), (''LTC'', ''LTC''), (''LITECOIN'', ''LTC''), (''BCH'', ''BCH''),
      (''BITCOIN CASH'', ''BCH'')]"

section \<open>Effects\<close>

text \<open>
  What one invocation of the sheet updater receives from outside: the outcome of each call
  on the spreadsheet, the clock, the outcome of each HTTP request, and what the operating
  system answers to the sleep that follows the invocation. The ticker request of a row is
  indexed by the row and the pair asked for, so the rows' answers are independent.
  The effects performed are recorded as a list of events; a log call is recorded with its
  level and its format string, without the arguments.
\<close>

record env =
  worksheet_res :: "exn option"
  col_values_res :: "exn + string option list"
  time_now :: real
  asset_pairs_res :: "exn + response"
  ticker_res :: "nat \<Rightarrow> string \<Rightarrow> exn + response"
  update_cells_res :: "exn option"
  sleep_res :: "exn option"

datatype cell_value = Num pyfloat | Str string

datatype Cell = Cell (cell_row: nat) (cell_col: nat) (cell_val: cell_value)

datatype log_level = INFO | WARNING | ERROR

datatype event =
    Log log_level string
  | HttpGet string "(string \<times> string) list"
  | Worksheet string
  | ColValues nat
  | UpdateCells "Cell list"
  | Sleep int

section \<open>KrakenPairsCache\<close>

type_synonym pair_map = "((string \<times> string) \<times> string) list"

record KrakenPairsCache =
  pairs_by_base_quote :: pair_map
  last_refresh :: real

definition init_cache :: KrakenPairsCache where
  "init_cache = \<lparr> pairs_by_base_quote = [], last_refresh = 0 \<rparr>"

text \<open>\<open>meta.get(k, "").replace("X", "").replace("Z", "")\<close>\<close>

definition meta_code :: "json \<Rightarrow> string \<Rightarrow> exn + string" where
  "meta_code meta k =
     (case py_get meta k of
        Inl e \<Rightarrow> Inl e
      | Inr None \<Rightarrow> Inr (replace_empty CHR ''Z'' (replace_empty CHR ''X'' ''''))
      | Inr (Some (JStr s)) \<Rightarrow> Inr (replace_empty CHR ''Z'' (replace_empty CHR ''X'' s))
      | Inr (Some _) \<Rightarrow> Inl AttributeError)"

text \<open>The loop over \<open>pairs.items()\<close>; \<open>mapping[(base, quote)] = pair_name\<close> is a dict store.\<close>

fun refresh_loop :: "(string \<times> json) list \<Rightarrow> pair_map \<Rightarrow> exn + pair_map" where
  "refresh_loop [] mapping = Inr mapping"
| "refresh_loop ((pair_name, meta) # rest) mapping =
     (case meta_code meta ''base'' of
        Inl e \<Rightarrow> Inl e
      | Inr base \<Rightarrow>
          (case meta_code meta ''quote'' of
             Inl e \<Rightarrow> Inl e
           | Inr quote \<Rightarrow>
               refresh_loop rest
                 (if base \<noteq> [] \<and> quote \<noteq> []
                  then AList.update (base, quote) pair_name mapping
                  else mapping)))"

text \<open>
  Lines 73 to 78: from the outcome of \<open>requests.get\<close> on the catalog endpoint to the
  value of \<open>pairs\<close>.
\<close>

definition asset_pairs_result :: "(exn + response) \<Rightarrow> exn + json" where
  "asset_pairs_result got =
     (case got of
        Inl e \<Rightarrow> Inl e
      | Inr r \<Rightarrow>
     (case raise_for_status r of
        Some e \<Rightarrow> Inl e
      | None \<Rightarrow>
     (case response_json r of
        Inl e \<Rightarrow> Inl e
      | Inr data \<Rightarrow>
     (case py_get data ''error'' of
        Inl e \<Rightarrow> Inl e
      | Inr err \<Rightarrow>
          if (case err of None \<Rightarrow> False | Some v \<Rightarrow> truthy v)
          then Inl (RuntimeError ''Kraken AssetPairs error'' err)
          else py_getitem data (JStr ''result'')))))"

text \<open>Lines 73 to 84: from the outcome of the HTTP request to the new mapping.\<close>

definition fetch_mapping :: "(exn + response) \<Rightarrow> exn + pair_map" where
  "fetch_mapping got =
     (case asset_pairs_result got of
        Inl e \<Rightarrow> Inl e
      | Inr pairs \<Rightarrow>
     (case py_items pairs of
        Inl e \<Rightarrow> Inl e
      | Inr items \<Rightarrow> refresh_loop items []))"

text \<open>The test of line 69: the mapping is young enough and not empty.\<close>

definition cache_fresh :: "config \<Rightarrow> real \<Rightarrow> KrakenPairsCache \<Rightarrow> bool" where
  "cache_fresh cfg now c =
     (now - last_refresh c < of_int (ASSET_PAIRS_REFRESH_SECS cfg) \<and> pairs_by_base_quote c \<noteq> [])"

text \<open>
  \<open>refresh_if_needed\<close> returns the exception raised, if any, the cache afterwards and the
  effects performed.
\<close>

definition refresh_if_needed ::
  "config \<Rightarrow> env \<Rightarrow> KrakenPairsCache \<Rightarrow> exn option \<times> KrakenPairsCache \<times> event list" where
  "refresh_if_needed cfg env c =
     (let now = time_now env in
      if cache_fresh cfg now c
      then (None, c, [])
      else
        (let evs = [Log INFO ''Refreshing Kraken AssetPairs mapping...'',
                    HttpGet (KRAKEN_BASE @ ''/AssetPairs'') []]
         in case fetch_mapping (asset_pairs_res env) of
              Inl e \<Rightarrow> (Some e, c, evs)
            | Inr mapping \<Rightarrow>
                (None, c\<lparr>pairs_by_base_quote := mapping, last_refresh := now\<rparr>,
                 evs @ [Log INFO ''Loaded %d Kraken pairs''])))"

text \<open>The \<open>for key in [...]\<close> loop of \<open>find_pair\<close>.\<close>

fun first_hit :: "pair_map \<Rightarrow> (string \<times> string) list \<Rightarrow> string option" where
  "first_hit d [] = None"
| "first_hit d (key # keys) = (case map_of d key of Some v \<Rightarrow> Some v | None \<Rightarrow> first_hit d keys)"

definition find_pair :: "KrakenPairsCache \<Rightarrow> string \<Rightarrow> string \<Rightarrow> string option" where
  "find_pair c base_input quote =
     (let base_norm = (case map_of BASE_ALIASES (strip (upper base_input)) of
                         Some a \<Rightarrow> a
                       | None \<Rightarrow> strip (upper base_input));
          quote_norm = strip (upper quote);
          d = pairs_by_base_quote c
      in case map_of d (base_norm, quote_norm) of
           Some v \<Rightarrow> Some v
         | None \<Rightarrow>
             first_hit d
               [(base_norm, quote_norm),
                (replace_empty CHR ''X'' base_norm, replace_empty CHR ''Z'' quote_norm),
                (strip (upper base_input), quote_norm)])"

section \<open>Price fetcher\<close>

text \<open>
  Lines 110 to 115: from the outcome \<open>got\<close> of \<open>requests.get\<close> on the ticker endpoint
  to the value of \<open>result\<close>.
\<close>

definition ticker_result :: "(exn + response) \<Rightarrow> exn + json" where
  "ticker_result got =
     (case got of
        Inl e \<Rightarrow> Inl e
      | Inr r \<Rightarrow>
     (case raise_for_status r of
        Some e \<Rightarrow> Inl e
      | None \<Rightarrow>
     (case response_json r of
        Inl e \<Rightarrow> Inl e
      | Inr data \<Rightarrow>
     (case py_get data ''error'' of
        Inl e \<Rightarrow> Inl e
      | Inr err \<Rightarrow>
          if (case err of None \<Rightarrow> False | Some v \<Rightarrow> truthy v)
          then Inl (RuntimeError ''Kraken Ticker error'' err)
          else py_getitem data (JStr ''result'')))))"

text \<open>\<open>float(entry["c"][0])\<close>, for \<open>entry = result[first_key]\<close>.\<close>

definition last_trade_price :: "(string \<Rightarrow> pyfloat option) \<Rightarrow> json \<Rightarrow> exn + pyfloat" where
  "last_trade_price pf entry =
     (case py_getitem entry (JStr ''c'') of
        Inl e \<Rightarrow> Inl e
      | Inr c \<Rightarrow>
     (case py_getitem c (JInt 0) of
        Inl e \<Rightarrow> Inl e
      | Inr last_trade \<Rightarrow> py_float pf last_trade))"

definition get_kraken_last_price :: "(string \<Rightarrow> pyfloat option) \<Rightarrow> (exn + response) \<Rightarrow> exn + pyfloat" where
  "get_kraken_last_price pf got =
     (case ticker_result got of
        Inl e \<Rightarrow> Inl e
      | Inr result \<Rightarrow>
     (case py_next_iter result of
        Inl e \<Rightarrow> Inl e
      | Inr first_key \<Rightarrow>
     (case py_getitem result first_key of
        Inl e \<Rightarrow> Inl e
      | Inr entry \<Rightarrow> last_trade_price pf entry)))"

section \<open>Sheet updater\<close>

text \<open>
  The body of the \<open>for\<close> loop for a row whose symbol is not blank: the cell staged, or the
  exception that leaves the loop (\<open>except Exception\<close> does not catch the others).
\<close>

definition stage_row ::
  "(string \<Rightarrow> pyfloat option) \<Rightarrow> config \<Rightarrow> env \<Rightarrow> KrakenPairsCache \<Rightarrow> nat \<Rightarrow> string
     \<Rightarrow> (exn + Cell) \<times> event list" where
  "stage_row pf cfg env c row symbol_str =
     (let na = (Inr (Cell row 2 (Str ''N/A'')), [Log WARNING ''No Kraken pair for %s-%s (row %d)''])
      in case find_pair c symbol_str (QUOTE_CCY cfg) of
           None \<Rightarrow> na
         | Some pair_name \<Rightarrow>
             if pair_name = [] then na
             else
               (let evs = [HttpGet (KRAKEN_BASE @ ''/Ticker'') [(''pair'', pair_name)]]
                in case get_kraken_last_price pf (ticker_res env row pair_name) of
                     Inr price \<Rightarrow> (Inr (Cell row 2 (Num price)), evs)
                   | Inl e \<Rightarrow>
                       if is_Exception e
                       then (Inr (Cell row 2 (Str ''ERR'')),
                             evs @ [Log ERROR ''Failed to fetch price for %s (row %d)''])
                       else (Inl e, evs)))"

text \<open>\<open>(raw or "").strip()\<close>\<close>

definition symbol_of :: "string option \<Rightarrow> string" where
  "symbol_of raw = strip (case raw of None \<Rightarrow> [] | Some s \<Rightarrow> s)"

text \<open>
  The loop \<open>for idx, raw in enumerate(inputs)\<close>, from index \<open>idx\<close> on, with the cells staged
  so far.
\<close>

fun stage_loop ::
  "(string \<Rightarrow> pyfloat option) \<Rightarrow> config \<Rightarrow> env \<Rightarrow> KrakenPairsCache \<Rightarrow> nat \<Rightarrow> string option list
     \<Rightarrow> Cell list \<Rightarrow> (exn + Cell list) \<times> event list" where
  "stage_loop pf cfg env c idx [] cells_to_update = (Inr cells_to_update, [])"
| "stage_loop pf cfg env c idx (raw # inputs) cells_to_update =
     (let row = 2 + idx; symbol_str = symbol_of raw in
      if symbol_str = [] then stage_loop pf cfg env c (Suc idx) inputs cells_to_update
      else
        (case stage_row pf cfg env c row symbol_str of
           (Inl e, evs) \<Rightarrow> (Inl e, evs)
         | (Inr cell, evs) \<Rightarrow>
             (case stage_loop pf cfg env c (Suc idx) inputs (cells_to_update @ [cell]) of
                (res, evs') \<Rightarrow> (res, evs @ evs'))))"

definition update_sheet_once ::
  "(string \<Rightarrow> pyfloat option) \<Rightarrow> config \<Rightarrow> env \<Rightarrow> KrakenPairsCache
     \<Rightarrow> exn option \<times> KrakenPairsCache \<times> event list" where
  "update_sheet_once pf cfg env c =
     (let ev1 = [Worksheet (WORKSHEET_NAME cfg)] in
      case worksheet_res env of
        Some e \<Rightarrow> (Some e, c, ev1)
      | None \<Rightarrow>
     (let ev2 = ev1 @ [ColValues 1] in
      case col_values_res env of
        Inl e \<Rightarrow> (Some e, c, ev2)
      | Inr col \<Rightarrow>
          if length col \<le> 1
          then (None, c, ev2 @ [Log INFO ''No tickers found (only header or empty).''])
          else
     (let inputs = tl col in
      case refresh_if_needed cfg env c of
        (Some e, c', ev3) \<Rightarrow> (Some e, c', ev2 @ ev3)
      | (None, c', ev3) \<Rightarrow>
     (case stage_loop pf cfg env c' 0 inputs [] of
        (Inl e, ev4) \<Rightarrow> (Some e, c', ev2 @ ev3 @ ev4)
      | (Inr cells_to_update, ev4) \<Rightarrow>
          if cells_to_update \<noteq> []
          then
            (case update_cells_res env of
               Some e \<Rightarrow> (Some e, c', ev2 @ ev3 @ ev4 @ [UpdateCells cells_to_update])
             | None \<Rightarrow>
                 (None, c', ev2 @ ev3 @ ev4
                    @ [UpdateCells cells_to_update, Log INFO ''Updated %d price cells.'']))
          else (None, c', ev2 @ ev3 @ ev4)))))"

section \<open>Scheduler loop\<close>

text \<open>
  \<open>time.sleep(secs)\<close> for an integer length, as in CPython 3.11: the length in nanoseconds
  must fit in 64 bits (\<open>OverflowError\<close>), it must not be negative (\<open>ValueError\<close>), and
  then the operating system sleeps or refuses (\<open>os_res\<close>).
\<close>

definition time_sleep :: "int \<Rightarrow> exn option \<Rightarrow> exn option" where
  "time_sleep secs os_res =
     (if secs < - 9223372036 \<or> 9223372036 < secs then Some OverflowError
      else if secs < 0 then Some ValueError
      else os_res)"

text \<open>
  The \<open>while True\<close> loop of \<open>main\<close>, run for at most \<open>fuel\<close> iterations; iteration \<open>i\<close> meets
  the outside world \<open>envs i\<close>. The first component is \<open>None\<close> while the loop is still running
  when the fuel is spent, and the exception that ended the loop otherwise. The inner case is
  the \<open>try\<close> statement: \<open>Inr\<close> when control reaches the statement after it, with the effects
  so far, \<open>Inl\<close> when the exception is not caught.
\<close>

fun main_loop ::
  "nat \<Rightarrow> (string \<Rightarrow> pyfloat option) \<Rightarrow> config \<Rightarrow> (nat \<Rightarrow> env) \<Rightarrow> nat \<Rightarrow> KrakenPairsCache
     \<Rightarrow> exn option \<times> KrakenPairsCache \<times> event list" where
  "main_loop 0 pf cfg envs i c = (None, c, [])"
| "main_loop (Suc fuel) pf cfg envs i c =
     (case update_sheet_once pf cfg (envs i) c of
        (res, c', evs) \<Rightarrow>
          (case (case res of
                   None \<Rightarrow> Inr evs
                 | Some e \<Rightarrow>
                     if is_Exception e then Inr (evs @ [Log ERROR ''Run iteration failed''])
                     else Inl e) of
             Inl e \<Rightarrow> (Some e, c', evs)
           | Inr evs1 \<Rightarrow>
               (case time_sleep (POLL_INTERVAL_SECS cfg) (sleep_res (envs i)) of
                  Some e \<Rightarrow> (Some e, c', evs1)
                | None \<Rightarrow>
                    (case main_loop fuel pf cfg envs (Suc i) c' of
                       (r, c'', evs') \<Rightarrow>
                         (r, c'', evs1 @ [Sleep (POLL_INTERVAL_SECS cfg)] @ evs')))))"

section \<open>Predicates used in the statements\<close>

text \<open>Every key of a mapping has a non-empty base and a non-empty quote.\<close>

definition keys_nonempty :: "pair_map \<Rightarrow> bool" where
  "keys_nonempty m = list_all (\<lambda>((base, quote), pair_name). base \<noteq> [] \<and> quote \<noteq> []) m"

text \<open>The rows of the worksheet, from row 2 on, whose symbol is not blank.\<close>

definition nonblank_rows :: "string option list \<Rightarrow> nat list" where
  "nonblank_rows inputs =
     map (\<lambda>(idx, raw). 2 + idx) (filter (\<lambda>(idx, raw). symbol_of raw \<noteq> []) (enumerate 0 inputs))"

text \<open>The calls on the worksheet among the effects: the lookup, the read and the write.\<close>

fun is_lookup :: "event \<Rightarrow> bool" where
  "is_lookup (Worksheet name) = True"
| "is_lookup _ = False"

fun is_read :: "event \<Rightarrow> bool" where
  "is_read (ColValues n) = True"
| "is_read _ = False"

fun is_write :: "event \<Rightarrow> bool" where
  "is_write (UpdateCells cells) = True"
| "is_write _ = False"

fun is_sleep :: "event \<Rightarrow> bool" where
  "is_sleep (Sleep secs) = True"
| "is_sleep _ = False"

text \<open>
  No call on the outside raises an exception that is not an \<open>Exception\<close>: the process is
  not terminated from outside during the invocation.
\<close>

definition no_external_termination :: "env \<Rightarrow> bool" where
  "no_external_termination env =
     ((\<forall>e. worksheet_res env = Some e \<longrightarrow> is_Exception e) \<and>
      (\<forall>e. col_values_res env = Inl e \<longrightarrow> is_Exception e) \<and>
      (\<forall>e. asset_pairs_res env = Inl e \<longrightarrow> is_Exception e) \<and>
      (\<forall>row pair_name e. ticker_res env row pair_name = Inl e \<longrightarrow> is_Exception e) \<and>
      (\<forall>e. update_cells_res env = Some e \<longrightarrow> is_Exception e))"


section \<open>Example inputs\<close>

definition btc_meta :: json where
  "btc_meta = JObj [(''altname'', JStr ''XBTUSD''), (''base'', JStr ''XXBT''), (''quote'', JStr ''ZUSD'')]"

definition eth_meta :: json where
  "eth_meta = JObj [(''altname'', JStr ''ETHUSD''), (''base'', JStr ''XETH''), (''quote'', JStr ''ZUSD'')]"

text \<open>A 200 response of the provider with an empty error list and the given result.\<close>

definition ok_response :: "json \<Rightarrow> response" where
  "ok_response result =
     \<lparr> status_code = 200, body = Some (JObj [(''error'', JArr []), (''result'', result)]) \<rparr>"

text \<open>An outside world in which every call succeeds, for a given column and catalog.\<close>

definition quiet_env :: "string option list \<Rightarrow> json \<Rightarrow> env" where
  "quiet_env col catalog =
     \<lparr> worksheet_res = None, col_values_res = Inr col, time_now = 1000,
       asset_pairs_res = Inr (ok_response catalog),
       ticker_res = (\<lambda>row pair_name.
          Inr (ok_response (JObj [(pair_name, JObj [(''c'', JArr [JStr ''100.5'', JStr ''0.1''])])]))),
       update_cells_res = None, sleep_res = None \<rparr>"

definition btc_cache :: KrakenPairsCache where
  "btc_cache = \<lparr> pairs_by_base_quote = [((''BT'', ''USD''), ''XXBTZUSD'')], last_refresh = 0 \<rparr>"

definition two_pair_catalog :: json where
  "two_pair_catalog = JObj [(''XXBTZUSD'', btc_meta), (''XETHZUSD'', eth_meta)]"

text \<open>Two catalog entries with the same base and quote, as a pair and its dark-pool twin.\<close>

definition dup_catalog :: json where
  "dup_catalog = JObj [(''XXBTZUSD'', btc_meta), (''XXBTZUSD.d'', btc_meta)]"

text \<open>A catalog whose second entry is malformed, and one with codes that strip to nothing.\<close>

definition malformed_catalog :: json where
  "malformed_catalog = JObj [(''XETHZUSD'', eth_meta), (''BROKEN'', JNull)]"

definition blank_code_catalog :: json where
  "blank_code_catalog =
     JObj [(''XXBTZUSD'', btc_meta),
           (''XZ'', JObj [(''base'', JStr ''XZ''), (''quote'', JStr ''ZUSD'')]),
           (''NOQUOTE'', JObj [(''base'', JStr ''XETH'')])]"

text \<open>A parser of decimal strings that knows the two prices of the examples.\<close>

definition example_float :: "string \<Rightarrow> pyfloat option" where
  "example_float s =
     (if s = ''100.5'' then Some (Fin 100.5) else if s = ''2500'' then Some (Fin 2500) else None)"

text \<open>
  The worksheet of the example: a header, then "BTC", a blank row, "NOPE" and "ETH"; the
  ticker endpoint answers "100.5" for the bitcoin pair and "2500" for any other pair.
\<close>

definition sheet_env :: env where
  "sheet_env =
     \<lparr> worksheet_res = None,
       col_values_res = Inr [Some ''Symbol'', Some ''BTC'', Some [], Some ''NOPE'', Some ''ETH''],
       time_now = 1000,
       asset_pairs_res = Inr (ok_response two_pair_catalog),
       ticker_res = (\<lambda>row pair_name.
          Inr (ok_response (JObj [(pair_name, JObj [(''c'',
            JArr [JStr (if pair_name = ''XXBTZUSD'' then ''100.5'' else ''2500''), JStr ''0.1''])])]))),
       update_cells_res = None, sleep_res = None \<rparr>"

text \<open>A world in which the worksheet cannot be found.\<close>

definition no_sheet_env :: env where
  "no_sheet_env = (quiet_env [] two_pair_catalog)\<lparr> worksheet_res := Some GSpreadException \<rparr>"

text \<open>A world in which the request for the pair catalog fails.\<close>

definition refresh_fail_env :: env where
  "refresh_fail_env = sheet_env\<lparr> asset_pairs_res := Inl RequestException \<rparr>"

text \<open>A ticker response that reports an error in a body with status 200.\<close>

definition error_response :: response where
  "error_response =
     \<lparr> status_code = 200,
       body = Some (JObj [(''error'', JArr [JStr ''EQuery:Unknown asset pair''])]) \<rparr>"

definition error_env :: env where
  "error_env = sheet_env\<lparr> ticker_res := (\<lambda>row pair_name. Inr error_response) \<rparr>"

text \<open>The cache after the refresh on the catalog of the example.\<close>

definition sheet_cache :: KrakenPairsCache where
  "sheet_cache =
     \<lparr> pairs_by_base_quote = [((''BT'', ''USD''), ''XXBTZUSD''), ((''ETH'', ''USD''), ''XETHZUSD'')],
       last_refresh = 1000 \<rparr>"

section \<open>Pair lookup\<close>

text \<open>
  C7. Whenever the mapping of the pair cache is empty, \<open>find_pair\<close> returns "not found"
  (\<open>None\<close>) for every base and quote input: neither the alias table nor any of the fallback
  keys can hit an empty mapping.
\<close>

theorem find_pair_empty_cache:
  "pairs_by_base_quote c = [] \<Longrightarrow> find_pair c base_input quote = None"
  by (simp add: find_pair_def Let_def)

theorem find_pair_empty_cache_witness:
  "pairs_by_base_quote init_cache = [] \<and> find_pair init_cache '' btc'' ''usd'' = None"
proof -
  have h: "pairs_by_base_quote init_cache = []" by (simp add: init_cache_def)
  show ?thesis using h find_pair_empty_cache [OF h, of "'' btc''" "''usd''"] by simp
qed

section \<open>Facts about the strings and fixtures\<close>

lemmas string_defs = upper_def upper_char_def lower_letters_def upper_letters_def strip_def
  is_space_def replace_empty_def

lemmas fixture_defs = quiet_env_def ok_response_def btc_meta_def eth_meta_def two_pair_catalog_def
  dup_catalog_def malformed_catalog_def blank_code_catalog_def init_cache_def default_config_def
  btc_cache_def sheet_cache_def example_float_def sheet_env_def no_sheet_env_def error_response_def
  error_env_def

lemmas refresh_defs = refresh_if_needed_def cache_fresh_def fetch_mapping_def asset_pairs_result_def
  raise_for_status_def response_json_def meta_code_def replace_empty_def


section \<open>Rebuilding the mapping\<close>

lemma keys_nonempty_iff: "keys_nonempty m \<longleftrightarrow> (\<forall>k \<in> fst ` set m. fst k \<noteq> [] \<and> snd k \<noteq> [])"
  by (auto simp: keys_nonempty_def list_all_iff)

text \<open>
  A property of keys that holds of the starting mapping and of every key the loop stores
  holds of the mapping the loop returns.
\<close>

lemma refresh_loop_keys:
  "refresh_loop ps m = Inr m' \<Longrightarrow> \<forall>k \<in> fst ` set m. P k
     \<Longrightarrow> \<forall>b q. b \<noteq> [] \<and> q \<noteq> [] \<and>
            (\<exists>meta \<in> snd ` set ps. meta_code meta ''base'' = Inr b \<and> meta_code meta ''quote'' = Inr q)
            \<longrightarrow> P (b, q)
     \<Longrightarrow> \<forall>k \<in> fst ` set m'. P k"
proof (induction ps arbitrary: m)
  case Nil
  then show ?case by simp
next
  case (Cons p ps)
  obtain n meta where p: "p = (n, meta)" by (cases p)
  from Cons.prems(1) obtain b q where
    b: "meta_code meta ''base'' = Inr b" and q: "meta_code meta ''quote'' = Inr q"
    and rest: "refresh_loop ps (if b \<noteq> [] \<and> q \<noteq> [] then AList.update (b, q) n m else m) = Inr m'"
    by (auto simp: p split: sum.splits)
  have inv: "\<forall>k \<in> fst ` set (if b \<noteq> [] \<and> q \<noteq> [] then AList.update (b, q) n m else m). P k"
  proof (cases "b \<noteq> [] \<and> q \<noteq> []")
    case True
    then have "P (b, q)" using Cons.prems(3) b q p by auto
    then show ?thesis using True Cons.prems(2) by (simp add: dom_update)
  next
    case False
    then show ?thesis using Cons.prems(2) by auto
  qed
  have step: "\<forall>b q. b \<noteq> [] \<and> q \<noteq> [] \<and>
            (\<exists>meta \<in> snd ` set ps. meta_code meta ''base'' = Inr b \<and> meta_code meta ''quote'' = Inr q)
            \<longrightarrow> P (b, q)"
    using Cons.prems(3) by auto
  show ?case by (rule Cons.IH[OF rest inv step])
qed




lemma refresh_loop_keys_nonempty:
  "refresh_loop ps m = Inr m' \<Longrightarrow> keys_nonempty m \<Longrightarrow> keys_nonempty m'"
  unfolding keys_nonempty_iff
  by (erule refresh_loop_keys[where P="\<lambda>k. fst k \<noteq> [] \<and> snd k \<noteq> []"]) auto

lemma fetch_mapping_keys_nonempty:
  "fetch_mapping got = Inr m \<Longrightarrow> keys_nonempty m"
  by (auto simp: fetch_mapping_def split: sum.splits
           dest!: refresh_loop_keys_nonempty simp: keys_nonempty_def)

lemma refresh_if_needed_keys_nonempty:
  "keys_nonempty (pairs_by_base_quote c)
     \<Longrightarrow> keys_nonempty (pairs_by_base_quote (fst (snd (refresh_if_needed cfg env c))))"
  by (auto simp: refresh_if_needed_def Let_def split: sum.splits dest: fetch_mapping_keys_nonempty)

lemma update_sheet_once_cache:
  "fst (snd (update_sheet_once pf cfg env c)) = c \<or>
   fst (snd (update_sheet_once pf cfg env c)) = fst (snd (refresh_if_needed cfg env c))"
  by (auto simp: update_sheet_once_def Let_def split: option.splits sum.splits prod.splits)

lemma update_sheet_once_keys_nonempty:
  "keys_nonempty (pairs_by_base_quote c)
     \<Longrightarrow> keys_nonempty (pairs_by_base_quote (fst (snd (update_sheet_once pf cfg env c))))"
  using update_sheet_once_cache[of pf cfg env c] refresh_if_needed_keys_nonempty[of c cfg env]
  by auto

lemma main_loop_keys_nonempty:
  "keys_nonempty (pairs_by_base_quote c)
     \<Longrightarrow> keys_nonempty (pairs_by_base_quote (fst (snd (main_loop fuel pf cfg envs i c))))"
proof (induction fuel arbitrary: i c)
  case 0
  then show ?case by simp
next
  case (Suc fuel)
  obtain res c' evs where u: "update_sheet_once pf cfg (envs i) c = (res, c', evs)"
    by (cases "update_sheet_once pf cfg (envs i) c") auto
  have k: "keys_nonempty (pairs_by_base_quote c')"
    using update_sheet_once_keys_nonempty[OF Suc.prems, of pf cfg "envs i"] u by simp
  show ?case using Suc.IH[OF k, of "Suc i"] k
    by (auto simp: u split: option.splits prod.splits sum.splits if_splits)
qed

lemma refresh_loop_omit:
  "meta_code meta ''base'' = Inr b \<Longrightarrow> meta_code meta ''quote'' = Inr q \<Longrightarrow> b = [] \<or> q = []
     \<Longrightarrow> refresh_loop (pre @ (pair_name, meta) # post) m = refresh_loop (pre @ post) m"
  by (induction pre arbitrary: m) (auto split: sum.splits)

text \<open>The ways a refresh attempt fails before the loop.\<close>

lemma asset_pairs_result_failures:
  "asset_pairs_result (Inl e) = Inl e"
  "400 \<le> status_code r \<Longrightarrow> status_code r < 600 \<Longrightarrow> asset_pairs_result (Inr r) = Inl HTTPError"
  "raise_for_status r = None \<Longrightarrow> body r = None \<Longrightarrow> asset_pairs_result (Inr r) = Inl JSONDecodeError"
  "raise_for_status r = None \<Longrightarrow> body r = Some (JObj data) \<Longrightarrow> map_of data ''error'' = Some err
     \<Longrightarrow> truthy err
     \<Longrightarrow> asset_pairs_result (Inr r) = Inl (RuntimeError ''Kraken AssetPairs error'' (Some err))"
  by (simp_all add: asset_pairs_result_def raise_for_status_def response_json_def)

lemma refresh_attempt_fails_iff:
  "\<not> cache_fresh cfg (time_now env) c
     \<Longrightarrow> fst (refresh_if_needed cfg env c) \<noteq> None \<longleftrightarrow> isl (fetch_mapping (asset_pairs_res env))"
  by (auto simp: refresh_if_needed_def Let_def split: sum.splits)

text \<open>
  C2. The claim: the refresh derives the cache key by stripping only the single-letter
  prefix of the base and of the quote code, so that "XXBT" becomes "XBT" and "ZUSD" becomes
  "USD", every other character being preserved. The code removes every "X" and every "Z":
  the entry with base "XXBT" and quote "ZUSD" is stored under ("BT", "USD"), and the entry
  with base "XTZ" and quote "ZUSD" under ("T", "USD"), where \<open>find_pair "XTZ" "USD"\<close> does
  not find it.
\<close>

theorem strips_every_X_and_Z:
  "meta_code btc_meta ''base'' = Inr ''BT'' \<and>
   meta_code btc_meta ''quote'' = Inr ''USD'' \<and>
   fetch_mapping (Inr (ok_response (JObj [(''XXBTZUSD'', btc_meta)])))
     = Inr [((''BT'', ''USD''), ''XXBTZUSD'')] \<and>
   fetch_mapping (Inr (ok_response
       (JObj [(''XTZUSD'', JObj [(''base'', JStr ''XTZ''), (''quote'', JStr ''ZUSD'')])])))
     = Inr [((''T'', ''USD''), ''XTZUSD'')] \<and>
   find_pair \<lparr>pairs_by_base_quote = [((''T'', ''USD''), ''XTZUSD'')], last_refresh = 1000\<rparr>
     ''XTZ'' ''USD'' = None"
  by (simp add: refresh_defs fixture_defs find_pair_def Let_def string_defs BASE_ALIASES_def)

text \<open>
  C3. A refresh is atomic with respect to failure: whenever \<open>refresh_if_needed\<close> raises,
  the cache afterwards is the cache before, whatever the point of failure; when it returns
  normally the cache is either untouched (it was fresh) or its mapping is the one built from
  the catalog alone, replaced wholesale.
\<close>

theorem refresh_failure_keeps_cache:
  "refresh_if_needed cfg env c = (res, c', evs) \<Longrightarrow>
     (res \<noteq> None \<longrightarrow> c' = c) \<and>
     (res = None \<longrightarrow>
        (cache_fresh cfg (time_now env) c \<and> c' = c) \<or>
        (\<exists>mapping. fetch_mapping (asset_pairs_res env) = Inr mapping \<and>
           c' = c\<lparr>pairs_by_base_quote := mapping, last_refresh := time_now env\<rparr>))"
  by (auto simp: refresh_if_needed_def Let_def split: if_splits sum.splits)

theorem refresh_failure_keeps_cache_witness:
  "fst (refresh_if_needed default_config (quiet_env [] malformed_catalog) btc_cache) = Some AttributeError \<and>
   fst (snd (refresh_if_needed default_config (quiet_env [] malformed_catalog) btc_cache)) = btc_cache"
proof -
  let ?R = "refresh_if_needed default_config (quiet_env [] malformed_catalog) btc_cache"
  have raised: "fst ?R = Some AttributeError" by (simp add: refresh_defs fixture_defs)
  have "?R = (fst ?R, fst (snd ?R), snd (snd ?R))" by simp
  from refresh_failure_keeps_cache[OF this] raised show ?thesis by simp
qed

text \<open>
  C9. Every refresh keeps the invariant that all keys of the pair cache have a non-empty
  base and a non-empty quote: a catalog entry whose base or quote is empty after the
  characters are stripped is skipped without an error (the loop behaves as if the entry were
  not in the catalog), every mapping a refresh builds has non-empty keys only, a refresh
  preserves the invariant, and it holds of the cache after any number of iterations of the
  scheduler loop started on the initial, empty cache.
\<close>

theorem refresh_omits_empty_codes:
  "(meta_code meta ''base'' = Inr b \<and> meta_code meta ''quote'' = Inr q \<and> (b = [] \<or> q = [])
      \<longrightarrow> refresh_loop (pre @ (pair_name, meta) # post) m = refresh_loop (pre @ post) m) \<and>
   (\<forall>mapping. fetch_mapping got = Inr mapping \<longrightarrow> keys_nonempty mapping) \<and>
   (keys_nonempty (pairs_by_base_quote c)
      \<longrightarrow> keys_nonempty (pairs_by_base_quote (fst (snd (refresh_if_needed cfg env c))))) \<and>
   keys_nonempty (pairs_by_base_quote (fst (snd (main_loop fuel pf cfg envs i init_cache))))"
proof -
  have "keys_nonempty (pairs_by_base_quote init_cache)"
    by (simp add: init_cache_def keys_nonempty_def)
  then show ?thesis
    using refresh_loop_omit[of meta b q pre pair_name post m] fetch_mapping_keys_nonempty[of got]
      refresh_if_needed_keys_nonempty[of c cfg env] main_loop_keys_nonempty[of init_cache fuel pf cfg envs i]
    by blast
qed

theorem refresh_omits_empty_codes_witness:
  "meta_code (JObj [(''base'', JStr ''XZ''), (''quote'', JStr ''ZUSD'')]) ''base'' = Inr [] \<and>
   fetch_mapping (Inr (ok_response blank_code_catalog)) = Inr [((''BT'', ''USD''), ''XXBTZUSD'')] \<and>
   keys_nonempty [((''BT'', ''USD''), ''XXBTZUSD'')] \<and>
   keys_nonempty (pairs_by_base_quote
     (fst (snd (refresh_if_needed default_config (quiet_env [] blank_code_catalog) btc_cache))))"
proof -
  let ?weird = "JObj [(''base'', JStr ''XZ''), (''quote'', JStr ''ZUSD'')]"
  have b: "meta_code ?weird ''base'' = Inr []" and q: "meta_code ?weird ''quote'' = Inr ''USD''"
    by (simp_all add: meta_code_def replace_empty_def)
  have f: "fetch_mapping (Inr (ok_response blank_code_catalog)) = Inr [((''BT'', ''USD''), ''XXBTZUSD'')]"
    by (simp add: refresh_defs fixture_defs)
  have k: "keys_nonempty (pairs_by_base_quote btc_cache)"
    by (simp add: btc_cache_def keys_nonempty_def)
  note inst = refresh_omits_empty_codes[of ?weird "[]" "''USD''" "[(''XXBTZUSD'', btc_meta)]" "''XZ''"
      "[(''NOQUOTE'', JObj [(''base'', JStr ''XETH'')])]" "[]"
      "Inr (ok_response blank_code_catalog)" btc_cache default_config "quiet_env [] blank_code_catalog"]
  from inst b q f k show ?thesis by simp
qed

section \<open>Round trip through the catalog\<close>





section \<open>First entry of the ticker result\<close>

text \<open>
  C10. For a ticker response that passes the error check and whose result is an object, the
  price fetcher takes the last-trade price from the first entry of the result in iteration
  order: what it returns is \<open>float(entry["c"][0])\<close> for that entry, whatever the entry's key
  and whatever follows it (the function does not even receive the pair asked for, which only
  goes into the request). On an empty result object the call raises (\<open>StopIteration\<close>), and
  when the price is a string that is not a number it raises (\<open>ValueError\<close>).
\<close>

theorem price_from_first_entry:
  assumes "ticker_result got = Inr (JObj result)"
  shows "(result = [] \<longrightarrow> get_kraken_last_price pf got = Inl StopIteration) \<and>
         (\<forall>k entry rest. result = (k, entry) # rest
            \<longrightarrow> get_kraken_last_price pf got = last_trade_price pf entry) \<and>
         (\<forall>k entry rest s more.
            result = (k, JObj entry) # rest \<and> map_of entry ''c'' = Some (JArr (JStr s # more))
            \<longrightarrow> get_kraken_last_price pf got
                  = (case pf s of Some price \<Rightarrow> Inr price | None \<Rightarrow> Inl ValueError))"
  using assms
  by (auto simp: get_kraken_last_price_def last_trade_price_def seq_index_def split: option.splits)

theorem price_from_first_entry_witness:
  "get_kraken_last_price example_float
     (Inr (ok_response (JObj [(''XBTUSD'', JObj [(''c'', JArr [JStr ''100.5'', JStr ''0.1''])]),
                               (''XXBTZUSD'', JObj [(''c'', JArr [JStr ''2500'', JStr ''0.1''])])])))
     = Inr (Fin 100.5) \<and>
   get_kraken_last_price example_float
     (Inr (ok_response (JObj [(''XXBTZUSD'', JObj [(''c'', JArr [JStr ''n/a'', JStr ''0.1''])])])))
     = Inl ValueError \<and>
   get_kraken_last_price example_float (Inr (ok_response (JObj []))) = Inl StopIteration"
proof -
  let ?e1 = "[(''c'', JArr [JStr ''100.5'', JStr ''0.1''])]"
  let ?r1 = "[(''XBTUSD'', JObj ?e1), (''XXBTZUSD'', JObj [(''c'', JArr [JStr ''2500'', JStr ''0.1''])])]"
  let ?e2 = "[(''c'', JArr [JStr ''n/a'', JStr ''0.1''])]"
  let ?r2 = "[(''XXBTZUSD'', JObj ?e2)]"
  have t: "\<And>result. ticker_result (Inr (ok_response (JObj result))) = Inr (JObj result)"
    by (simp add: ticker_result_def raise_for_status_def response_json_def ok_response_def)
  from price_from_first_entry[OF t, of ?r1 example_float]
  have 1: "get_kraken_last_price example_float (Inr (ok_response (JObj ?r1))) = Inr (Fin 100.5)"
    by (simp add: example_float_def last_trade_price_def seq_index_def)
  from price_from_first_entry[OF t, of ?r2 example_float]
  have 2: "get_kraken_last_price example_float (Inr (ok_response (JObj ?r2))) = Inl ValueError"
    by (simp add: example_float_def last_trade_price_def seq_index_def)
  from price_from_first_entry[OF t, of "[]" example_float]
  have 3: "get_kraken_last_price example_float (Inr (ok_response (JObj []))) = Inl StopIteration"
    by simp
  from 1 2 3 show ?thesis by simp
qed

section \<open>Exceptions and the staging loop\<close>

text \<open>Every failure of the program's own operations is an \<open>Exception\<close>.\<close>

lemma seq_index_Exception: "seq_index xs i = Inl e \<Longrightarrow> is_Exception e"
  by (auto simp: seq_index_def split: if_splits)

lemma py_getitem_Exception: "py_getitem obj k = Inl e \<Longrightarrow> is_Exception e"
  by (induction obj k rule: py_getitem.induct)
     (auto split: option.splits sum.splits if_splits dest: seq_index_Exception)

lemma py_get_Exception: "py_get obj k = Inl e \<Longrightarrow> is_Exception e"
  by (cases obj) auto

lemma py_items_Exception: "py_items obj = Inl e \<Longrightarrow> is_Exception e"
  by (cases obj) auto

lemma py_next_iter_Exception: "py_next_iter obj = Inl e \<Longrightarrow> is_Exception e"
  by (induction obj rule: py_next_iter.induct) auto

lemma py_float_Exception: "py_float pf obj = Inl e \<Longrightarrow> is_Exception e"
  by (cases obj) (auto split: option.splits if_splits)

lemma last_trade_price_Exception: "last_trade_price pf entry = Inl e \<Longrightarrow> is_Exception e"
  by (auto simp: last_trade_price_def split: sum.splits
           dest: py_getitem_Exception py_float_Exception)

lemma ticker_result_interrupt:
  "ticker_result got = Inl e \<Longrightarrow> \<not> is_Exception e \<Longrightarrow> got = Inl e"
  by (auto simp: ticker_result_def raise_for_status_def response_json_def
           split: sum.splits option.splits if_splits
           dest: py_get_Exception py_getitem_Exception)

lemma get_kraken_last_price_interrupt:
  "get_kraken_last_price pf got = Inl e \<Longrightarrow> \<not> is_Exception e \<Longrightarrow> got = Inl e"
  by (auto simp: get_kraken_last_price_def split: sum.splits
           dest: ticker_result_interrupt py_next_iter_Exception py_getitem_Exception
                 last_trade_price_Exception)

lemma asset_pairs_result_interrupt:
  "asset_pairs_result got = Inl e \<Longrightarrow> \<not> is_Exception e \<Longrightarrow> got = Inl e"
  by (auto simp: asset_pairs_result_def raise_for_status_def response_json_def
           split: sum.splits option.splits if_splits
           dest: py_get_Exception py_getitem_Exception)

lemma meta_code_Exception: "meta_code meta k = Inl e \<Longrightarrow> is_Exception e"
  by (auto simp: meta_code_def split: sum.splits option.splits json.splits dest: py_get_Exception)

lemma refresh_loop_Exception: "refresh_loop ps m = Inl e \<Longrightarrow> is_Exception e"
  by (induction ps m rule: refresh_loop.induct)
     (auto split: sum.splits if_splits dest: meta_code_Exception)

lemma fetch_mapping_interrupt:
  "fetch_mapping got = Inl e \<Longrightarrow> \<not> is_Exception e \<Longrightarrow> got = Inl e"
  by (auto simp: fetch_mapping_def split: sum.splits
           dest: asset_pairs_result_interrupt py_items_Exception refresh_loop_Exception)

lemma refresh_if_needed_interrupt:
  "refresh_if_needed cfg env c = (Some e, c', evs) \<Longrightarrow> \<not> is_Exception e
     \<Longrightarrow> asset_pairs_res env = Inl e"
  by (auto simp: refresh_if_needed_def Let_def split: if_splits sum.splits
           dest: fetch_mapping_interrupt)

text \<open>The cell a row stages is in that row, in column 2.\<close>

lemma stage_row_cell:
  "stage_row pf cfg env c row symb = (Inr cell, evs) \<Longrightarrow> cell_row cell = row \<and> cell_col cell = 2"
  by (auto simp: stage_row_def Let_def split: option.splits if_splits sum.splits)

lemma stage_row_interrupt:
  "stage_row pf cfg env c row symb = (Inl e, evs)
     \<Longrightarrow> \<not> is_Exception e \<and> (\<exists>pair_name. ticker_res env row pair_name = Inl e)"
  by (auto simp: stage_row_def Let_def split: option.splits if_splits sum.splits
           dest: get_kraken_last_price_interrupt)

lemma stage_row_not_sheet_event:
  "ev \<in> set (snd (stage_row pf cfg env c row symb))
     \<Longrightarrow> \<not> is_lookup ev \<and> \<not> is_read ev \<and> \<not> is_write ev \<and> \<not> is_sleep ev"
  by (auto simp: stage_row_def Let_def split: option.splits if_splits sum.splits)

lemma stage_loop_interrupt:
  "stage_loop pf cfg env c idx inputs acc = (Inl e, evs)
     \<Longrightarrow> \<not> is_Exception e \<and> (\<exists>row pair_name. ticker_res env row pair_name = Inl e)"
proof (induction inputs arbitrary: idx acc evs)
  case Nil
  then show ?case by simp
next
  case (Cons raw inputs)
  show ?case
  proof (cases "symbol_of raw = []")
    case True
    then show ?thesis using Cons by simp
  next
    case False
    obtain r evs1 where sr: "stage_row pf cfg env c (2 + idx) (symbol_of raw) = (r, evs1)"
      by (cases "stage_row pf cfg env c (2 + idx) (symbol_of raw)") auto
    show ?thesis
    proof (cases r)
      case (Inl e')
      then show ?thesis using Cons.prems False sr stage_row_interrupt[of pf cfg env c "2 + idx" "symbol_of raw" e' evs1]
        by (auto simp: Let_def)
    next
      case (Inr cell)
      obtain r2 evs2 where sl: "stage_loop pf cfg env c (Suc idx) inputs (acc @ [cell]) = (r2, evs2)"
        by (cases "stage_loop pf cfg env c (Suc idx) inputs (acc @ [cell])") auto
      then show ?thesis using Cons.prems False sr Inr Cons.IH[of "Suc idx" "acc @ [cell]" evs2]
        by (auto simp: Let_def)
    qed
  qed
qed

lemma stage_loop_not_sheet_event:
  "ev \<in> set (snd (stage_loop pf cfg env c idx inputs acc))
     \<Longrightarrow> \<not> is_lookup ev \<and> \<not> is_read ev \<and> \<not> is_write ev \<and> \<not> is_sleep ev"
proof (induction inputs arbitrary: idx acc)
  case Nil
  then show ?case by simp
next
  case (Cons raw inputs)
  show ?case
  proof (cases "symbol_of raw = []")
    case True
    then show ?thesis using Cons by simp
  next
    case False
    obtain r evs1 where sr: "stage_row pf cfg env c (2 + idx) (symbol_of raw) = (r, evs1)"
      by (cases "stage_row pf cfg env c (2 + idx) (symbol_of raw)") auto
    have e1: "\<And>ev. ev \<in> set evs1 \<Longrightarrow> \<not> is_lookup ev \<and> \<not> is_read ev \<and> \<not> is_write ev \<and> \<not> is_sleep ev"
      using stage_row_not_sheet_event[of _ pf cfg env c "2 + idx" "symbol_of raw"] sr by simp
    show ?thesis
    proof (cases r)
      case (Inl e')
      then show ?thesis using Cons.prems False sr e1 by (auto simp: Let_def)
    next
      case (Inr cell)
      obtain r2 evs2 where sl: "stage_loop pf cfg env c (Suc idx) inputs (acc @ [cell]) = (r2, evs2)"
        by (cases "stage_loop pf cfg env c (Suc idx) inputs (acc @ [cell])") auto
      then show ?thesis using Cons.prems False sr Inr e1 Cons.IH[of "Suc idx" "acc @ [cell]"]
        by (auto simp: Let_def)
    qed
  qed
qed

text \<open>The cells the loop stages, when it runs to its end.\<close>

lemma stage_loop_cells:
  "stage_loop pf cfg env c idx inputs acc = (Inr cells, evs) \<Longrightarrow>
   cells = acc @ map (\<lambda>(i, raw). projr (fst (stage_row pf cfg env c (2 + i) (symbol_of raw))))
                   (filter (\<lambda>(i, raw). symbol_of raw \<noteq> []) (enumerate idx inputs)) \<and>
   (\<forall>(i, raw) \<in> set (filter (\<lambda>(i, raw). symbol_of raw \<noteq> []) (enumerate idx inputs)).
       \<not> isl (fst (stage_row pf cfg env c (2 + i) (symbol_of raw))))"
proof (induction inputs arbitrary: idx acc evs)
  case Nil
  then show ?case by simp
next
  case (Cons raw inputs)
  show ?case
  proof (cases "symbol_of raw = []")
    case True
    then show ?thesis using Cons.prems Cons.IH[of "Suc idx" acc evs] by simp
  next
    case False
    obtain r evs1 where sr: "stage_row pf cfg env c (2 + idx) (symbol_of raw) = (r, evs1)"
      by (cases "stage_row pf cfg env c (2 + idx) (symbol_of raw)") auto
    show ?thesis
    proof (cases r)
      case (Inl e')
      then show ?thesis using Cons.prems False sr by (simp add: Let_def)
    next
      case (Inr cell)
      obtain r2 evs2 where sl: "stage_loop pf cfg env c (Suc idx) inputs (acc @ [cell]) = (r2, evs2)"
        by (cases "stage_loop pf cfg env c (Suc idx) inputs (acc @ [cell])") auto
      with Cons.prems False sr Inr have r2: "r2 = Inr cells" by (simp add: Let_def)
      from Cons.IH[OF sl[unfolded r2]] show ?thesis using False sr Inr by simp
    qed
  qed
qed

lemma stage_loop_total:
  "\<forall>row pair_name e. ticker_res env row pair_name = Inl e \<longrightarrow> is_Exception e
     \<Longrightarrow> \<exists>cells evs. stage_loop pf cfg env c idx inputs acc = (Inr cells, evs)"
proof -
  assume a: "\<forall>row pair_name e. ticker_res env row pair_name = Inl e \<longrightarrow> is_Exception e"
  obtain r evs where s: "stage_loop pf cfg env c idx inputs acc = (r, evs)"
    by (cases "stage_loop pf cfg env c idx inputs acc") auto
  show ?thesis
  proof (cases r)
    case (Inl e)
    then show ?thesis using stage_loop_interrupt[of pf cfg env c idx inputs acc e evs] s a by blast
  next
    case (Inr cells)
    then show ?thesis using s by simp
  qed
qed

lemma stage_loop_rows:
  assumes "stage_loop pf cfg env c 0 inputs [] = (Inr cells, evs)"
  shows "map cell_row cells = nonblank_rows inputs \<and> (\<forall>cell \<in> set cells. cell_col cell = 2)"
proof -
  let ?rows = "filter (\<lambda>(i, raw). symbol_of raw \<noteq> []) (enumerate 0 inputs)"
  let ?f = "\<lambda>(i, raw). projr (fst (stage_row pf cfg env c (2 + i) (symbol_of raw)))"
  from stage_loop_cells[OF assms]
  have cells: "cells = map ?f ?rows"
    and ok: "\<forall>(i, raw) \<in> set ?rows. \<not> isl (fst (stage_row pf cfg env c (2 + i) (symbol_of raw)))"
    by simp_all
  have each: "\<And>i raw. (i, raw) \<in> set ?rows \<Longrightarrow> cell_row (?f (i, raw)) = 2 + i \<and> cell_col (?f (i, raw)) = 2"
  proof -
    fix i raw assume "(i, raw) \<in> set ?rows"
    with ok have "\<not> isl (fst (stage_row pf cfg env c (2 + i) (symbol_of raw)))" by blast
    then obtain cell evs' where "stage_row pf cfg env c (2 + i) (symbol_of raw) = (Inr cell, evs')"
      by (cases "stage_row pf cfg env c (2 + i) (symbol_of raw)"; cases "fst (stage_row pf cfg env c (2 + i) (symbol_of raw))") auto
    then show "cell_row (?f (i, raw)) = 2 + i \<and> cell_col (?f (i, raw)) = 2"
      using stage_row_cell by fastforce
  qed
  have "map cell_row cells = map (\<lambda>(i, raw). 2 + i) ?rows"
    unfolding cells using each by (auto simp: comp_def)
  moreover have "\<forall>cell \<in> set cells. cell_col cell = 2"
    unfolding cells using each by auto
  ultimately show ?thesis by (simp add: nonblank_rows_def)
qed

section \<open>The worksheet of the example\<close>

lemma stage_row_not_found:
  "find_pair c symbol_str (QUOTE_CCY cfg) = None
     \<Longrightarrow> stage_row pf cfg env c row symbol_str
           = (Inr (Cell row 2 (Str ''N/A'')), [Log WARNING ''No Kraken pair for %s-%s (row %d)''])"
  by (simp add: stage_row_def)

lemma sheet_example_refresh:
  "refresh_if_needed default_config sheet_env init_cache =
     (None, sheet_cache,
      [Log INFO ''Refreshing Kraken AssetPairs mapping...'',
       HttpGet ''https://api.kraken.com/0/public/AssetPairs'' [],
       Log INFO ''Loaded %d Kraken pairs''])"
  by (simp add: refresh_defs fixture_defs KRAKEN_BASE_def)

lemma symbol_examples:
  "symbol_of (Some ''BTC'') = ''BTC''" "symbol_of (Some []) = []"
  "symbol_of (Some ''NOPE'') = ''NOPE''" "symbol_of (Some ''ETH'') = ''ETH''"
  "strip (upper ''BTC'') = ''BTC''" "strip (upper ''NOPE'') = ''NOPE''"
  "strip (upper ''ETH'') = ''ETH''" "strip (upper ''USD'') = ''USD''"
  "upper ''USD'' = ''USD''" "strip ''USD'' = ''USD''"
  by (simp_all add: symbol_of_def string_defs)

lemma default_config_values:
  "WORKSHEET_NAME default_config = ''tab''" "QUOTE_CCY default_config = ''USD''"
  by (simp_all add: default_config_def QUOTE_CCY_def string_defs)

lemma sheet_example_find_pair:
  "find_pair sheet_cache ''BTC'' ''USD'' = Some ''XXBTZUSD''"
  "find_pair sheet_cache ''NOPE'' ''USD'' = None"
  "find_pair sheet_cache ''ETH'' ''USD'' = Some ''XETHZUSD''"
  by (simp_all add: find_pair_def sheet_cache_def Let_def symbol_examples BASE_ALIASES_def
        replace_empty_def)

lemma sheet_example_rows:
  "stage_row example_float default_config sheet_env sheet_cache 2 ''BTC''
     = (Inr (Cell 2 2 (Num (Fin 100.5))),
        [HttpGet ''https://api.kraken.com/0/public/Ticker'' [(''pair'', ''XXBTZUSD'')]])"
  "stage_row example_float default_config sheet_env sheet_cache 4 ''NOPE''
     = (Inr (Cell 4 2 (Str ''N/A'')), [Log WARNING ''No Kraken pair for %s-%s (row %d)''])"
  "stage_row example_float default_config sheet_env sheet_cache 5 ''ETH''
     = (Inr (Cell 5 2 (Num (Fin 2500))),
        [HttpGet ''https://api.kraken.com/0/public/Ticker'' [(''pair'', ''XETHZUSD'')]])"
proof -
  have price: "get_kraken_last_price example_float (ticker_res sheet_env 2 ''XXBTZUSD'') = Inr (Fin 100.5)"
    "get_kraken_last_price example_float (ticker_res sheet_env 5 ''XETHZUSD'') = Inr (Fin 2500)"
    by (simp_all add: sheet_env_def ok_response_def get_kraken_last_price_def ticker_result_def
          last_trade_price_def seq_index_def raise_for_status_def response_json_def example_float_def)
  show "stage_row example_float default_config sheet_env sheet_cache 2 ''BTC''
     = (Inr (Cell 2 2 (Num (Fin 100.5))),
        [HttpGet ''https://api.kraken.com/0/public/Ticker'' [(''pair'', ''XXBTZUSD'')]])"
    by (simp add: stage_row_def default_config_values sheet_example_find_pair price KRAKEN_BASE_def)
  show "stage_row example_float default_config sheet_env sheet_cache 4 ''NOPE''
     = (Inr (Cell 4 2 (Str ''N/A'')), [Log WARNING ''No Kraken pair for %s-%s (row %d)''])"
    by (simp add: stage_row_def default_config_values sheet_example_find_pair)
  show "stage_row example_float default_config sheet_env sheet_cache 5 ''ETH''
     = (Inr (Cell 5 2 (Num (Fin 2500))),
        [HttpGet ''https://api.kraken.com/0/public/Ticker'' [(''pair'', ''XETHZUSD'')]])"
    by (simp add: stage_row_def default_config_values sheet_example_find_pair price KRAKEN_BASE_def)
qed

lemma sheet_example_loop:
  "stage_loop example_float default_config sheet_env sheet_cache 0
     [Some ''BTC'', Some [], Some ''NOPE'', Some ''ETH''] []
   = (Inr [Cell 2 2 (Num (Fin 100.5)), Cell 4 2 (Str ''N/A''), Cell 5 2 (Num (Fin 2500))],
      [HttpGet ''https://api.kraken.com/0/public/Ticker'' [(''pair'', ''XXBTZUSD'')],
       Log WARNING ''No Kraken pair for %s-%s (row %d)'',
       HttpGet ''https://api.kraken.com/0/public/Ticker'' [(''pair'', ''XETHZUSD'')]])"
  by (simp add: symbol_examples sheet_example_rows)

lemma sheet_example_update:
  "update_sheet_once example_float default_config sheet_env init_cache =
     (None, sheet_cache,
      [Worksheet ''tab'', ColValues 1,
       Log INFO ''Refreshing Kraken AssetPairs mapping...'',
       HttpGet ''https://api.kraken.com/0/public/AssetPairs'' [],
       Log INFO ''Loaded %d Kraken pairs'',
       HttpGet ''https://api.kraken.com/0/public/Ticker'' [(''pair'', ''XXBTZUSD'')],
       Log WARNING ''No Kraken pair for %s-%s (row %d)'',
       HttpGet ''https://api.kraken.com/0/public/Ticker'' [(''pair'', ''XETHZUSD'')],
       UpdateCells [Cell 2 2 (Num (Fin 100.5)), Cell 4 2 (Str ''N/A''), Cell 5 2 (Num (Fin 2500))],
       Log INFO ''Updated %d price cells.''])"
proof -
  have env: "worksheet_res sheet_env = None"
    "col_values_res sheet_env = Inr [Some ''Symbol'', Some ''BTC'', Some [], Some ''NOPE'', Some ''ETH'']"
    "update_cells_res sheet_env = None"
    by (simp_all add: sheet_env_def)
  show ?thesis
    by (simp add: update_sheet_once_def default_config_values env sheet_example_refresh
          sheet_example_loop del: stage_loop.simps)
qed

section \<open>Rows\<close>

lemma nonblank_rows_distinct: "distinct (nonblank_rows inputs)"
  by (auto simp: nonblank_rows_def distinct_map inj_on_def in_set_enumerate_eq)

lemma nonblank_rows_set:
  "row \<in> set (nonblank_rows inputs)
     \<longleftrightarrow> (\<exists>i < length inputs. row = 2 + i \<and> symbol_of (inputs ! i) \<noteq> [])"
  by (auto simp: nonblank_rows_def in_set_enumerate_eq image_iff)

lemma nonblank_rows_example:
  "nonblank_rows [Some ''BTC'', Some [], Some ''NOPE'', Some ''ETH''] = [2, 4, 5]"
  by (simp add: nonblank_rows_def enumerate_simps symbol_examples)

lemma refresh_if_needed_events:
  "refresh_if_needed cfg env c = (res, c', evs) \<Longrightarrow>
     filter is_lookup evs = [] \<and> filter is_read evs = [] \<and> filter is_write evs = [] \<and>
     filter is_sleep evs = []"
  by (auto simp: refresh_if_needed_def Let_def split: if_splits sum.splits)

lemma stage_loop_events:
  "stage_loop pf cfg env c idx inputs acc = (res, evs) \<Longrightarrow>
     filter is_lookup evs = [] \<and> filter is_read evs = [] \<and> filter is_write evs = [] \<and>
     filter is_sleep evs = []"
  using stage_loop_not_sheet_event[of _ pf cfg env c idx inputs acc]
  by (simp add: filter_empty_conv)

lemma not_write_member: "filter is_write evs = [] \<Longrightarrow> UpdateCells cells \<notin> set evs"
  by (auto simp: filter_empty_conv)

text \<open>
  An invocation that has read rows below the header and whose refresh did not raise runs
  the loop on these rows with the refreshed cache, and writes what the loop staged.
\<close>

lemma update_sheet_once_after_refresh:
  assumes "worksheet_res env = None" and "col_values_res env = Inr col" and "1 < length col"
    and "refresh_if_needed cfg env c0 = (None, c, ev3)"
    and "stage_loop pf cfg env c 0 (tl col) [] = (Inr cells, ev4)"
  shows "(cells \<noteq> [] \<longrightarrow> UpdateCells cells \<in> set (snd (snd (update_sheet_once pf cfg env c0)))) \<and>
         (cells = [] \<longrightarrow> filter is_write (snd (snd (update_sheet_once pf cfg env c0))) = [])"
  using assms refresh_if_needed_events[OF assms(4)] stage_loop_events[OF assms(5)]
  by (auto simp: update_sheet_once_def Let_def split: option.splits)

text \<open>
  C4, as amended. In one invocation of the sheet updater that reaches the row loop (the
  worksheet was read with rows below the header and the refresh of the pair cache did not
  raise), every input row below the header whose symbol is not blank contributes exactly
  one staged cell, at the same row index and in column 2, and a row whose symbol is blank
  contributes none: unless the process is terminated from outside during a price fetch,
  the loop runs to its end, the rows of the staged cells are, in order, the non-blank rows,
  each once, and the invocation writes exactly these cells (and makes no write when there
  are none); a symbol that resolves to no pair is staged as "N/A" without a request to the
  ticker endpoint. For the worksheet [header, "BTC", "", "NOPE", "ETH"] with quote "USD" the
  invocation stages and writes a numeric price at row 2, nothing at row 3, "N/A" at row 4
  and a numeric price at row 5, with ticker requests for rows 2 and 5 only.
\<close>

theorem one_cell_per_nonblank_row:
  "(\<forall>c0 header ev3.
      worksheet_res env = None \<and> col_values_res env = Inr (header # inputs) \<and> inputs \<noteq> [] \<and>
      refresh_if_needed cfg env c0 = (None, c, ev3) \<and>
      (\<forall>row pair_name e. ticker_res env row pair_name = Inl e \<longrightarrow> is_Exception e)
      \<longrightarrow> (\<exists>cells evs.
             stage_loop pf cfg env c 0 inputs [] = (Inr cells, evs) \<and>
             map cell_row cells = nonblank_rows inputs \<and> (\<forall>cell \<in> set cells. cell_col cell = 2) \<and>
             (cells \<noteq> [] \<longrightarrow> UpdateCells cells \<in> set (snd (snd (update_sheet_once pf cfg env c0)))) \<and>
             (cells = [] \<longrightarrow> filter is_write (snd (snd (update_sheet_once pf cfg env c0))) = []))) \<and>
   (\<forall>cells evs. stage_loop pf cfg env c 0 inputs [] = (Inr cells, evs)
      \<longrightarrow> map cell_row cells = nonblank_rows inputs \<and> (\<forall>cell \<in> set cells. cell_col cell = 2)) \<and>
   distinct (nonblank_rows inputs) \<and>
   (\<forall>row. row \<in> set (nonblank_rows inputs)
      \<longleftrightarrow> (\<exists>i < length inputs. row = 2 + i \<and> symbol_of (inputs ! i) \<noteq> [])) \<and>
   (find_pair c symbol_str (QUOTE_CCY cfg) = None
      \<longrightarrow> stage_row pf cfg env c row' symbol_str
            = (Inr (Cell row' 2 (Str ''N/A'')), [Log WARNING ''No Kraken pair for %s-%s (row %d)''])) \<and>
   update_sheet_once example_float default_config sheet_env init_cache =
     (None, sheet_cache,
      [Worksheet ''tab'', ColValues 1,
       Log INFO ''Refreshing Kraken AssetPairs mapping...'',
       HttpGet ''https://api.kraken.com/0/public/AssetPairs'' [],
       Log INFO ''Loaded %d Kraken pairs'',
       HttpGet ''https://api.kraken.com/0/public/Ticker'' [(''pair'', ''XXBTZUSD'')],
       Log WARNING ''No Kraken pair for %s-%s (row %d)'',
       HttpGet ''https://api.kraken.com/0/public/Ticker'' [(''pair'', ''XETHZUSD'')],
       UpdateCells [Cell 2 2 (Num (Fin 100.5)), Cell 4 2 (Str ''N/A''), Cell 5 2 (Num (Fin 2500))],
       Log INFO ''Updated %d price cells.''])"
proof -
  have inv: "\<forall>c0 header ev3.
      worksheet_res env = None \<and> col_values_res env = Inr (header # inputs) \<and> inputs \<noteq> [] \<and>
      refresh_if_needed cfg env c0 = (None, c, ev3) \<and>
      (\<forall>row pair_name e. ticker_res env row pair_name = Inl e \<longrightarrow> is_Exception e)
      \<longrightarrow> (\<exists>cells evs.
             stage_loop pf cfg env c 0 inputs [] = (Inr cells, evs) \<and>
             map cell_row cells = nonblank_rows inputs \<and> (\<forall>cell \<in> set cells. cell_col cell = 2) \<and>
             (cells \<noteq> [] \<longrightarrow> UpdateCells cells \<in> set (snd (snd (update_sheet_once pf cfg env c0)))) \<and>
             (cells = [] \<longrightarrow> filter is_write (snd (snd (update_sheet_once pf cfg env c0))) = []))"
  proof (intro allI impI)
    fix c0 header ev3
    assume h: "worksheet_res env = None \<and> col_values_res env = Inr (header # inputs) \<and> inputs \<noteq> [] \<and>
      refresh_if_needed cfg env c0 = (None, c, ev3) \<and>
      (\<forall>row pair_name e. ticker_res env row pair_name = Inl e \<longrightarrow> is_Exception e)"
    then have w: "worksheet_res env = None" and col: "col_values_res env = Inr (header # inputs)"
      and rf: "refresh_if_needed cfg env c0 = (None, c, ev3)"
      and tk: "\<forall>row pair_name e. ticker_res env row pair_name = Inl e \<longrightarrow> is_Exception e"
      by simp_all
    from h have len: "1 < length (header # inputs)" by (cases inputs) auto
    from stage_loop_total[OF tk, of pf cfg c 0 inputs "[]"] obtain cells evs where
      run: "stage_loop pf cfg env c 0 inputs [] = (Inr cells, evs)" by blast
    then have run': "stage_loop pf cfg env c 0 (tl (header # inputs)) [] = (Inr cells, evs)" by simp
    note rows = stage_loop_rows[OF run]
    note wr = update_sheet_once_after_refresh[OF w col len rf run']
    from run rows wr
    show "\<exists>cells evs.
             stage_loop pf cfg env c 0 inputs [] = (Inr cells, evs) \<and>
             map cell_row cells = nonblank_rows inputs \<and> (\<forall>cell \<in> set cells. cell_col cell = 2) \<and>
             (cells \<noteq> [] \<longrightarrow> UpdateCells cells \<in> set (snd (snd (update_sheet_once pf cfg env c0)))) \<and>
             (cells = [] \<longrightarrow> filter is_write (snd (snd (update_sheet_once pf cfg env c0))) = [])"
      by blast
  qed
  have rows: "\<forall>cells evs. stage_loop pf cfg env c 0 inputs [] = (Inr cells, evs)
      \<longrightarrow> map cell_row cells = nonblank_rows inputs \<and> (\<forall>cell \<in> set cells. cell_col cell = 2)"
    using stage_loop_rows[of pf cfg env c inputs] by blast
  have set: "\<forall>row. row \<in> set (nonblank_rows inputs)
      \<longleftrightarrow> (\<exists>i < length inputs. row = 2 + i \<and> symbol_of (inputs ! i) \<noteq> [])"
    using nonblank_rows_set[of _ inputs] by blast
  have na: "find_pair c symbol_str (QUOTE_CCY cfg) = None
      \<longrightarrow> stage_row pf cfg env c row' symbol_str
            = (Inr (Cell row' 2 (Str ''N/A'')), [Log WARNING ''No Kraken pair for %s-%s (row %d)''])"
    using stage_row_not_found[of c symbol_str cfg pf env row'] by blast
  from inv rows nonblank_rows_distinct[of inputs] set na sheet_example_update
  show ?thesis by (intro conjI)
qed

theorem one_cell_per_nonblank_row_witness:
  "find_pair sheet_cache ''NOPE'' (QUOTE_CCY default_config) = None \<and>
   map cell_row (projr (fst (stage_loop example_float default_config sheet_env sheet_cache 0
        [Some ''BTC'', Some [], Some ''NOPE'', Some ''ETH''] []))) = [2, 4, 5] \<and>
   UpdateCells (projr (fst (stage_loop example_float default_config sheet_env sheet_cache 0
        [Some ''BTC'', Some [], Some ''NOPE'', Some ''ETH''] [])))
     \<in> set (snd (snd (update_sheet_once example_float default_config sheet_env init_cache)))"
proof -
  let ?inputs = "[Some ''BTC'', Some [], Some ''NOPE'', Some ''ETH'']"
  have h1: "\<forall>row pair_name e. ticker_res sheet_env row pair_name = Inl e \<longrightarrow> is_Exception e"
    by (simp add: sheet_env_def)
  have h2: "find_pair sheet_cache ''NOPE'' (QUOTE_CCY default_config) = None"
    by (simp add: default_config_values sheet_example_find_pair)
  have w: "worksheet_res sheet_env = None" by (simp add: sheet_env_def)
  have col: "col_values_res sheet_env = Inr (Some ''Symbol'' # ?inputs)" by (simp add: sheet_env_def)
  have ne: "?inputs \<noteq> []" by simp
  note inst = one_cell_per_nonblank_row[of sheet_env ?inputs default_config sheet_cache example_float
      "''NOPE''" 4]
  note reach = inst[THEN conjunct1, rule_format, of "Some ''Symbol''" init_cache]
  from reach[OF conjI[OF w conjI[OF col conjI[OF ne conjI[OF sheet_example_refresh h1]]]]]
  obtain cells evs where
    run: "stage_loop example_float default_config sheet_env sheet_cache 0 ?inputs [] = (Inr cells, evs)"
    and rows: "map cell_row cells = nonblank_rows ?inputs"
    and wr: "cells \<noteq> [] \<longrightarrow> UpdateCells cells
               \<in> set (snd (snd (update_sheet_once example_float default_config sheet_env init_cache)))"
    by blast
  from rows have "cells \<noteq> []" by (auto simp: nonblank_rows_example)
  with run rows wr h2 show ?thesis by (simp add: nonblank_rows_example del: stage_loop.simps)
qed

text \<open>
  The claim as stated for every invocation fails when the refresh of the pair cache raises:
  the worksheet has the non-blank rows 2, 4 and 5 and the cache still holds a pair, but the
  invocation ends before the loop, with no ticker request and no cell staged or written.
\<close>

theorem refresh_failure_stages_nothing_counterexample:
  "update_sheet_once example_float default_config refresh_fail_env btc_cache =
     (Some RequestException, btc_cache,
      [Worksheet ''tab'', ColValues 1,
       Log INFO ''Refreshing Kraken AssetPairs mapping...'',
       HttpGet ''https://api.kraken.com/0/public/AssetPairs'' []]) \<and>
   nonblank_rows [Some ''BTC'', Some [], Some ''NOPE'', Some ''ETH''] = [2, 4, 5]"
  by (simp add: update_sheet_once_def refresh_defs fixture_defs refresh_fail_env_def KRAKEN_BASE_def
        nonblank_rows_example)

section \<open>Errors reported by the ticker endpoint\<close>

lemma stage_loop_cell_set:
  assumes "stage_loop pf cfg env c 0 inputs [] = (Inr cells, evs)"
  shows "cell \<in> set cells \<longleftrightarrow>
           (\<exists>i < length inputs. symbol_of (inputs ! i) \<noteq> [] \<and>
              fst (stage_row pf cfg env c (2 + i) (symbol_of (inputs ! i))) = Inr cell)"
proof -
  let ?rows = "filter (\<lambda>(i, raw). symbol_of raw \<noteq> []) (enumerate 0 inputs)"
  let ?f = "\<lambda>(i, raw). projr (fst (stage_row pf cfg env c (2 + i) (symbol_of raw)))"
  from stage_loop_cells[OF assms]
  have cells: "cells = map ?f ?rows"
    and ok: "\<forall>(i, raw) \<in> set ?rows. \<not> isl (fst (stage_row pf cfg env c (2 + i) (symbol_of raw)))"
    by simp_all
  have rows: "\<And>i raw. (i, raw) \<in> set ?rows \<longleftrightarrow> i < length inputs \<and> raw = inputs ! i \<and> symbol_of raw \<noteq> []"
    by (auto simp: in_set_enumerate_eq)
  have val: "\<And>i. i < length inputs \<Longrightarrow> symbol_of (inputs ! i) \<noteq> [] \<Longrightarrow>
      fst (stage_row pf cfg env c (2 + i) (symbol_of (inputs ! i))) = Inr (?f (i, inputs ! i))"
  proof -
    fix i assume "i < length inputs" "symbol_of (inputs ! i) \<noteq> []"
    then have "(i, inputs ! i) \<in> set ?rows" using rows by blast
    with ok have "\<not> isl (fst (stage_row pf cfg env c (2 + i) (symbol_of (inputs ! i))))" by blast
    then show "fst (stage_row pf cfg env c (2 + i) (symbol_of (inputs ! i))) = Inr (?f (i, inputs ! i))"
      by (cases "fst (stage_row pf cfg env c (2 + i) (symbol_of (inputs ! i)))") auto
  qed
  show ?thesis
  proof
    assume "cell \<in> set cells"
    then obtain i raw where m: "(i, raw) \<in> set ?rows" and c: "cell = ?f (i, raw)"
      unfolding cells by auto
    from m rows have i: "i < length inputs" "raw = inputs ! i" "symbol_of raw \<noteq> []" by blast+
    with val[of i] c show "\<exists>i < length inputs. symbol_of (inputs ! i) \<noteq> [] \<and>
              fst (stage_row pf cfg env c (2 + i) (symbol_of (inputs ! i))) = Inr cell"
      by auto
  next
    assume "\<exists>i < length inputs. symbol_of (inputs ! i) \<noteq> [] \<and>
              fst (stage_row pf cfg env c (2 + i) (symbol_of (inputs ! i))) = Inr cell"
    then obtain i where i: "i < length inputs" "symbol_of (inputs ! i) \<noteq> []"
      and s: "fst (stage_row pf cfg env c (2 + i) (symbol_of (inputs ! i))) = Inr cell" by blast
    from i rows have "(i, inputs ! i) \<in> set ?rows" by blast
    moreover from s have "?f (i, inputs ! i) = cell" by simp
    ultimately show "cell \<in> set cells" unfolding cells by force
  qed
qed

lemma ticker_error_raises:
  assumes "body r = Some (JObj data)" and "map_of data ''error'' = Some err" and "truthy err"
  shows "\<exists>e. get_kraken_last_price pf (Inr r) = Inl e \<and> is_Exception e"
  using assms
  by (auto simp: get_kraken_last_price_def ticker_result_def raise_for_status_def response_json_def)

lemma stage_row_ERR:
  assumes "get_kraken_last_price pf (ticker_res env row pair_name) = Inl e" and "is_Exception e"
    and "find_pair c symbol_str (QUOTE_CCY cfg) = Some pair_name" and "pair_name \<noteq> []"
  shows "fst (stage_row pf cfg env c row symbol_str) = Inr (Cell row 2 (Str ''ERR''))"
  using assms by (simp add: stage_row_def)

text \<open>
  C5. For every ticker response whose JSON body has a non-empty (truthy) error field, the
  price fetcher raises an exception and returns no number; the loop body of a row whose
  symbol resolves to a pair and whose ticker request got that response stages the "ERR"
  sentinel; and in the list of cells the loop stages, the cell of that row is "ERR" and no
  cell of that row is numeric.
\<close>

theorem ticker_error_gives_ERR:
  assumes "body r = Some (JObj data)" and "map_of data ''error'' = Some err" and "truthy err"
  shows "(\<exists>e. get_kraken_last_price pf (Inr r) = Inl e \<and> is_Exception e) \<and>
         (\<forall>pair_name. find_pair c symbol_str (QUOTE_CCY cfg) = Some pair_name \<and> pair_name \<noteq> [] \<and>
              ticker_res env row pair_name = Inr r
            \<longrightarrow> fst (stage_row pf cfg env c row symbol_str) = Inr (Cell row 2 (Str ''ERR''))) \<and>
         (\<forall>cells evs i pair_name.
              stage_loop pf cfg env c 0 inputs [] = (Inr cells, evs) \<and> i < length inputs \<and>
              symbol_of (inputs ! i) \<noteq> [] \<and>
              find_pair c (symbol_of (inputs ! i)) (QUOTE_CCY cfg) = Some pair_name \<and> pair_name \<noteq> [] \<and>
              ticker_res env (2 + i) pair_name = Inr r
            \<longrightarrow> Cell (2 + i) 2 (Str ''ERR'') \<in> set cells \<and>
                (\<forall>cell \<in> set cells. cell_row cell = 2 + i \<longrightarrow> cell_val cell = Str ''ERR''))"
proof (intro conjI allI impI)
  from ticker_error_raises[OF assms]
  show "\<exists>e. get_kraken_last_price pf (Inr r) = Inl e \<and> is_Exception e" .
next
  fix pair_name
  assume h: "find_pair c symbol_str (QUOTE_CCY cfg) = Some pair_name \<and> pair_name \<noteq> [] \<and>
              ticker_res env row pair_name = Inr r"
  from ticker_error_raises[OF assms, of pf] obtain e where
    "get_kraken_last_price pf (Inr r) = Inl e" "is_Exception e" by blast
  with h show "fst (stage_row pf cfg env c row symbol_str) = Inr (Cell row 2 (Str ''ERR''))"
    using stage_row_ERR[of pf env row pair_name e c symbol_str cfg] by simp
next
  fix cells evs i pair_name
  assume h: "stage_loop pf cfg env c 0 inputs [] = (Inr cells, evs) \<and> i < length inputs \<and>
              symbol_of (inputs ! i) \<noteq> [] \<and>
              find_pair c (symbol_of (inputs ! i)) (QUOTE_CCY cfg) = Some pair_name \<and> pair_name \<noteq> [] \<and>
              ticker_res env (2 + i) pair_name = Inr r"
  then have run: "stage_loop pf cfg env c 0 inputs [] = (Inr cells, evs)" by simp
  from ticker_error_raises[OF assms, of pf] obtain e where
    "get_kraken_last_price pf (Inr r) = Inl e" "is_Exception e" by blast
  with h have err: "fst (stage_row pf cfg env c (2 + i) (symbol_of (inputs ! i)))
                      = Inr (Cell (2 + i) 2 (Str ''ERR''))"
    using stage_row_ERR[of pf env "2 + i" pair_name e c "symbol_of (inputs ! i)" cfg] by simp
  show "Cell (2 + i) 2 (Str ''ERR'') \<in> set cells"
    using stage_loop_cell_set[OF run, of "Cell (2 + i) 2 (Str ''ERR'')"] h err by blast
  show "\<forall>cell \<in> set cells. cell_row cell = 2 + i \<longrightarrow> cell_val cell = Str ''ERR''"
  proof (intro ballI impI)
    fix cell assume "cell \<in> set cells" and row: "cell_row cell = 2 + i"
    then obtain j where j: "j < length inputs" "symbol_of (inputs ! j) \<noteq> []"
      "fst (stage_row pf cfg env c (2 + j) (symbol_of (inputs ! j))) = Inr cell"
      using stage_loop_cell_set[OF run, of cell] by blast
    obtain evs' where "stage_row pf cfg env c (2 + j) (symbol_of (inputs ! j)) = (Inr cell, evs')"
      using j(3) by (cases "stage_row pf cfg env c (2 + j) (symbol_of (inputs ! j))") auto
    from stage_row_cell[OF this] row have "j = i" by simp
    with j(3) err show "cell_val cell = Str ''ERR''" by simp
  qed
qed

theorem ticker_error_gives_ERR_witness:
  "truthy (JArr [JStr ''EQuery:Unknown asset pair'']) \<and>
   get_kraken_last_price example_float (Inr error_response)
     = Inl (RuntimeError ''Kraken Ticker error'' (Some (JArr [JStr ''EQuery:Unknown asset pair'']))) \<and>
   fst (stage_row example_float default_config error_env sheet_cache 2 ''BTC'')
     = Inr (Cell 2 2 (Str ''ERR''))"
proof -
  let ?err = "JArr [JStr ''EQuery:Unknown asset pair'']"
  have b: "body error_response = Some (JObj [(''error'', ?err)])"
    by (simp add: error_response_def)
  have m: "map_of [(''error'', ?err)] ''error'' = Some ?err" by simp
  have t: "truthy ?err" by simp
  have f: "find_pair sheet_cache ''BTC'' (QUOTE_CCY default_config) = Some ''XXBTZUSD''"
    by (simp add: default_config_values sheet_example_find_pair)
  have tr: "ticker_res error_env 2 ''XXBTZUSD'' = Inr error_response"
    by (simp add: error_env_def)
  note inst = ticker_error_gives_ERR[OF b m t, of example_float sheet_cache "''BTC''" default_config
      error_env 2 "[]"]
  have g: "get_kraken_last_price example_float (Inr error_response)
     = Inl (RuntimeError ''Kraken Ticker error'' (Some ?err))"
    by (simp add: get_kraken_last_price_def ticker_result_def raise_for_status_def
          response_json_def error_response_def)
  from inst f tr have "fst (stage_row example_float default_config error_env sheet_cache 2 ''BTC'')
     = Inr (Cell 2 2 (Str ''ERR''))" by blast
  with t g show ?thesis by simp
qed

section \<open>Calls on the worksheet\<close>

text \<open>
  C6, as amended. Per invocation of the sheet updater the worksheet is looked up exactly
  once, its column is read at most once, exactly once when the lookup succeeds, and the
  batch write happens at most once; a write holds exactly one cell, in column 2, for each
  row that had a non-blank input symbol and no cell for any other row, and when no row has
  a non-blank symbol no write call is made.
\<close>

theorem sheet_read_and_written_at_most_once:
  assumes "update_sheet_once pf cfg env c = (res, c', evs)"
  shows "length (filter is_lookup evs) = 1 \<and>
         length (filter is_read evs) = (if worksheet_res env = None then 1 else 0) \<and>
         length (filter is_write evs) \<le> 1 \<and>
         (\<forall>cells. UpdateCells cells \<in> set evs \<longrightarrow>
            cells \<noteq> [] \<and> (\<forall>cell \<in> set cells. cell_col cell = 2) \<and>
            (\<exists>col. col_values_res env = Inr col \<and> map cell_row cells = nonblank_rows (tl col))) \<and>
         ((\<forall>col. col_values_res env = Inr col \<longrightarrow> nonblank_rows (tl col) = [])
            \<longrightarrow> filter is_write evs = [])"
proof (cases "worksheet_res env")
  case (Some e)
  then show ?thesis using assms by (auto simp: update_sheet_once_def Let_def)
next
  case None
  show ?thesis
  proof (cases "col_values_res env")
    case (Inl e)
    then show ?thesis using assms None by (auto simp: update_sheet_once_def Let_def)
  next
    case (Inr col)
    show ?thesis
    proof (cases "length col \<le> 1")
      case True
      then show ?thesis using assms None Inr by (auto simp: update_sheet_once_def Let_def)
    next
      case False
      obtain r3 c3 ev3 where rf: "refresh_if_needed cfg env c = (r3, c3, ev3)"
        by (cases "refresh_if_needed cfg env c") auto
      note e3 = refresh_if_needed_events[OF rf]
      show ?thesis
      proof (cases r3)
        case (Some e)
        then show ?thesis using assms None Inr False rf e3
          by (auto simp: update_sheet_once_def Let_def dest: not_write_member)
      next
        case r3: None
        obtain r4 ev4 where sl: "stage_loop pf cfg env c3 0 (tl col) [] = (r4, ev4)"
          by (cases "stage_loop pf cfg env c3 0 (tl col) []") auto
        note e4 = stage_loop_events[OF sl]
        show ?thesis
        proof (cases r4)
          case (Inl e)
          then show ?thesis using assms None Inr False rf r3 sl e3 e4
            by (auto simp: update_sheet_once_def Let_def dest: not_write_member)
        next
          case r4: (Inr cells_to_update)
          note rows = stage_loop_rows[OF sl[unfolded r4]]
          show ?thesis
          proof (cases "cells_to_update = []")
            case True
            then show ?thesis using assms None Inr False rf r3 sl r4 e3 e4
              by (auto simp: update_sheet_once_def Let_def dest: not_write_member)
          next
            case ne: False
            have evs: "evs = [Worksheet (WORKSHEET_NAME cfg), ColValues 1] @ ev3 @ ev4 @ [UpdateCells cells_to_update]
                     \<or> evs = [Worksheet (WORKSHEET_NAME cfg), ColValues 1] @ ev3 @ ev4
                          @ [UpdateCells cells_to_update, Log INFO ''Updated %d price cells.'']"
              using assms None Inr False rf r3 sl r4 ne
              by (auto simp: update_sheet_once_def Let_def split: option.splits)
            have mem: "\<And>cells. UpdateCells cells \<in> set evs \<Longrightarrow> cells = cells_to_update"
              using evs e3 e4 by (auto dest: not_write_member)
            have nb: "nonblank_rows (tl col) \<noteq> []" using rows ne by auto
            have 1: "length (filter is_lookup evs) = 1" using evs e3 e4 by auto
            have 2: "length (filter is_read evs) = 1" using evs e3 e4 by auto
            have 3: "length (filter is_write evs) \<le> 1" using evs e3 e4 by auto
            have 4: "\<forall>cells. UpdateCells cells \<in> set evs \<longrightarrow>
                cells \<noteq> [] \<and> (\<forall>cell \<in> set cells. cell_col cell = 2) \<and>
                (\<exists>col. col_values_res env = Inr col \<and> map cell_row cells = nonblank_rows (tl col))"
              using mem rows ne Inr by blast
            have 5: "(\<forall>col. col_values_res env = Inr col \<longrightarrow> nonblank_rows (tl col) = [])
                \<longrightarrow> filter is_write evs = []"
              using nb Inr by blast
            from 1 2 3 4 5 None show ?thesis by simp
          qed
        qed
      qed
    qed
  qed
qed

theorem sheet_read_and_written_at_most_once_witness:
  "worksheet_res sheet_env = None \<and>
   length (filter is_read (snd (snd (update_sheet_once example_float default_config sheet_env init_cache)))) = 1 \<and>
   length (filter is_write (snd (snd (update_sheet_once example_float default_config sheet_env init_cache)))) \<le> 1 \<and>
   UpdateCells [Cell 2 2 (Num (Fin 100.5)), Cell 4 2 (Str ''N/A''), Cell 5 2 (Num (Fin 2500))]
     \<in> set (snd (snd (update_sheet_once example_float default_config sheet_env init_cache))) \<and>
   nonblank_rows (tl [Some ''Symbol'', Some ''BTC'', Some [], Some ''NOPE'', Some ''ETH'']) = [2, 4, 5]"
proof -
  have w: "worksheet_res sheet_env = None" by (simp add: sheet_env_def)
  have col: "col_values_res sheet_env
               = Inr [Some ''Symbol'', Some ''BTC'', Some [], Some ''NOPE'', Some ''ETH'']"
    by (simp add: sheet_env_def)
  note inst = sheet_read_and_written_at_most_once[OF sheet_example_update]
  have m: "UpdateCells [Cell 2 2 (Num (Fin 100.5)), Cell 4 2 (Str ''N/A''), Cell 5 2 (Num (Fin 2500))]
     \<in> set (snd (snd (update_sheet_once example_float default_config sheet_env init_cache)))"
    by (simp add: sheet_example_update)
  with inst col have "map cell_row [Cell 2 2 (Num (Fin 100.5)), Cell 4 2 (Str ''N/A''), Cell 5 2 (Num (Fin 2500))]
     = nonblank_rows (tl [Some ''Symbol'', Some ''BTC'', Some [], Some ''NOPE'', Some ''ETH''])"
    by (auto simp: sheet_example_update)
  with inst w m show ?thesis by (simp add: sheet_example_update)
qed

text \<open>
  The claim as stated fails when the worksheet lookup raises: the invocation ends before
  the column is read, so the worksheet is read zero times.
\<close>

theorem sheet_not_read_counterexample:
  "update_sheet_once example_float default_config no_sheet_env init_cache
     = (Some GSpreadException, init_cache, [Worksheet ''tab'']) \<and>
   length (filter is_read
     (snd (snd (update_sheet_once example_float default_config no_sheet_env init_cache)))) = 0"
  by (simp add: update_sheet_once_def no_sheet_env_def quiet_env_def default_config_def)

section \<open>The scheduler loop keeps running\<close>

lemma update_sheet_once_interrupt:
  assumes "no_external_termination env" and "update_sheet_once pf cfg env c = (Some e, c', evs)"
  shows "is_Exception e"
proof (rule ccontr)
  assume n: "\<not> is_Exception e"
  have w: "worksheet_res env \<noteq> Some e" and cv: "col_values_res env \<noteq> Inl e"
    and ap: "asset_pairs_res env \<noteq> Inl e" and uc: "update_cells_res env \<noteq> Some e"
    and tk: "\<And>row pair_name. ticker_res env row pair_name \<noteq> Inl e"
    using assms(1) n by (auto simp: no_external_termination_def)
  from assms(2) w cv uc show False
    using refresh_if_needed_interrupt[of cfg env c e _ _, OF _ n] ap
      stage_loop_interrupt[of pf cfg env _ 0 _ "[]" e] tk
    by (auto simp: update_sheet_once_def Let_def split: option.splits sum.splits if_splits prod.splits)
qed

lemma update_sheet_once_no_sleep:
  "update_sheet_once pf cfg env c = (res, c', evs) \<Longrightarrow> filter is_sleep evs = []"
  by (auto simp: update_sheet_once_def Let_def split: option.splits sum.splits if_splits prod.splits
           dest: refresh_if_needed_events stage_loop_events)

lemma main_loop_running:
  assumes "\<forall>i. no_external_termination (envs i)"
    and "0 \<le> POLL_INTERVAL_SECS cfg" and "POLL_INTERVAL_SECS cfg \<le> 9223372036"
    and "\<forall>i. sleep_res (envs i) = None"
  shows "fst (main_loop fuel pf cfg envs i c) = None \<and>
         filter is_sleep (snd (snd (main_loop fuel pf cfg envs i c)))
           = replicate fuel (Sleep (POLL_INTERVAL_SECS cfg))"
proof (induction fuel arbitrary: i c)
  case 0
  then show ?case by simp
next
  case (Suc fuel)
  obtain res c' evs where u: "update_sheet_once pf cfg (envs i) c = (res, c', evs)"
    by (cases "update_sheet_once pf cfg (envs i) c") auto
  note ns = update_sheet_once_no_sleep[OF u]
  obtain r2 c2 ev2 where m: "main_loop fuel pf cfg envs (Suc i) c' = (r2, c2, ev2)"
    by (cases "main_loop fuel pf cfg envs (Suc i) c'") auto
  from Suc.IH[of "Suc i" c'] m have ih: "r2 = None"
    "filter is_sleep ev2 = replicate fuel (Sleep (POLL_INTERVAL_SECS cfg))" by simp_all
  have sl: "time_sleep (POLL_INTERVAL_SECS cfg) (sleep_res (envs i)) = None"
    using assms(2,3,4) by (simp add: time_sleep_def)
  show ?case
  proof (cases res)
    case None
    then show ?thesis using u m ih ns sl by simp
  next
    case (Some e)
    with assms(1) u have "is_Exception e"
      using update_sheet_once_interrupt[of "envs i" pf cfg c e c' evs] by blast
    then show ?thesis using Some u m ih ns sl by simp
  qed
qed

text \<open>
  C8, as amended. Provided every call of \<open>time.sleep\<close> returns (the poll interval is
  between 0 and 9223372036 seconds and the operating system does not refuse the sleep),
  once the scheduler loop is running it never ends of its own accord: as long as the
  process is not terminated from outside, after any number of iterations the loop is still
  running, and it has slept once per iteration for the poll interval; every exception a
  sheet updater invocation raises is an \<open>Exception\<close>, is caught and logged, and the loop
  then sleeps and goes on with the next iteration, as it does after an invocation that
  returned normally.
\<close>

theorem scheduler_never_exits:
  assumes "\<forall>i. no_external_termination (envs i)"
    and "0 \<le> POLL_INTERVAL_SECS cfg" and "POLL_INTERVAL_SECS cfg \<le> 9223372036"
    and "\<forall>i. sleep_res (envs i) = None"
  shows "fst (main_loop fuel pf cfg envs i c) = None \<and>
         filter is_sleep (snd (snd (main_loop fuel pf cfg envs i c)))
           = replicate fuel (Sleep (POLL_INTERVAL_SECS cfg)) \<and>
         (\<forall>e c' evs. update_sheet_once pf cfg (envs i) c = (Some e, c', evs) \<longrightarrow>
            is_Exception e \<and>
            main_loop (Suc fuel) pf cfg envs i c =
              (None, fst (snd (main_loop fuel pf cfg envs (Suc i) c')),
               evs @ [Log ERROR ''Run iteration failed'', Sleep (POLL_INTERVAL_SECS cfg)]
                   @ snd (snd (main_loop fuel pf cfg envs (Suc i) c')))) \<and>
         (\<forall>c' evs. update_sheet_once pf cfg (envs i) c = (None, c', evs) \<longrightarrow>
            main_loop (Suc fuel) pf cfg envs i c =
              (None, fst (snd (main_loop fuel pf cfg envs (Suc i) c')),
               evs @ [Sleep (POLL_INTERVAL_SECS cfg)]
                   @ snd (snd (main_loop fuel pf cfg envs (Suc i) c'))))"
proof (intro conjI allI impI)
  show "fst (main_loop fuel pf cfg envs i c) = None"
    using main_loop_running[OF assms] by blast
  show "filter is_sleep (snd (snd (main_loop fuel pf cfg envs i c)))
           = replicate fuel (Sleep (POLL_INTERVAL_SECS cfg))"
    using main_loop_running[OF assms] by blast
next
  fix e c' evs
  assume u: "update_sheet_once pf cfg (envs i) c = (Some e, c', evs)"
  show ex: "is_Exception e"
    using assms(1) u update_sheet_once_interrupt[of "envs i" pf cfg c e c' evs] by blast
  have sl: "time_sleep (POLL_INTERVAL_SECS cfg) (sleep_res (envs i)) = None"
    using assms(2,3,4) by (simp add: time_sleep_def)
  obtain r2 c2 ev2 where m: "main_loop fuel pf cfg envs (Suc i) c' = (r2, c2, ev2)"
    by (cases "main_loop fuel pf cfg envs (Suc i) c'") auto
  then have "r2 = None" using main_loop_running[OF assms, of fuel pf "Suc i" c'] by simp
  then show "main_loop (Suc fuel) pf cfg envs i c =
              (None, fst (snd (main_loop fuel pf cfg envs (Suc i) c')),
               evs @ [Log ERROR ''Run iteration failed'', Sleep (POLL_INTERVAL_SECS cfg)]
                   @ snd (snd (main_loop fuel pf cfg envs (Suc i) c')))"
    using u ex m sl by simp
next
  fix c' evs
  assume u: "update_sheet_once pf cfg (envs i) c = (None, c', evs)"
  have sl: "time_sleep (POLL_INTERVAL_SECS cfg) (sleep_res (envs i)) = None"
    using assms(2,3,4) by (simp add: time_sleep_def)
  obtain r2 c2 ev2 where m: "main_loop fuel pf cfg envs (Suc i) c' = (r2, c2, ev2)"
    by (cases "main_loop fuel pf cfg envs (Suc i) c'") auto
  then have "r2 = None" using main_loop_running[OF assms, of fuel pf "Suc i" c'] by simp
  then show "main_loop (Suc fuel) pf cfg envs i c =
              (None, fst (snd (main_loop fuel pf cfg envs (Suc i) c')),
               evs @ [Sleep (POLL_INTERVAL_SECS cfg)]
                   @ snd (snd (main_loop fuel pf cfg envs (Suc i) c')))"
    using u m sl by simp
qed

lemma no_sheet_iteration:
  "update_sheet_once pf default_config no_sheet_env c = (Some GSpreadException, c, [Worksheet ''tab''])"
  by (simp add: update_sheet_once_def no_sheet_env_def quiet_env_def default_config_def)

theorem scheduler_never_exits_witness:
  "main_loop 2 example_float default_config (\<lambda>i. no_sheet_env) 0 init_cache =
     (None, init_cache,
      [Worksheet ''tab'', Log ERROR ''Run iteration failed'', Sleep 60,
       Worksheet ''tab'', Log ERROR ''Run iteration failed'', Sleep 60])"
proof -
  have h: "\<forall>i. no_external_termination ((\<lambda>i. no_sheet_env) i)"
    by (simp add: no_external_termination_def no_sheet_env_def quiet_env_def ok_response_def)
  have p: "POLL_INTERVAL_SECS default_config = 60" by (simp add: default_config_def)
  then have p0: "0 \<le> POLL_INTERVAL_SECS default_config"
    and p1: "POLL_INTERVAL_SECS default_config \<le> 9223372036" by simp_all
  have os: "\<forall>i. sleep_res ((\<lambda>i. no_sheet_env) i) = None"
    by (simp add: no_sheet_env_def quiet_env_def)
  note inst1 = scheduler_never_exits[OF h p0 p1 os, of 1 example_float 0 init_cache]
  note inst0 = scheduler_never_exits[OF h p0 p1 os, of 0 example_float 1 init_cache]
  from inst0 have m1: "main_loop (Suc 0) example_float default_config (\<lambda>i. no_sheet_env) 1 init_cache
      = (None, init_cache, [Worksheet ''tab'', Log ERROR ''Run iteration failed'', Sleep 60])"
    using no_sheet_iteration[of example_float init_cache] by (simp add: p)
  from inst1 have "main_loop (Suc 1) example_float default_config (\<lambda>i. no_sheet_env) 0 init_cache
      = (None, init_cache,
         [Worksheet ''tab'', Log ERROR ''Run iteration failed'', Sleep 60,
          Worksheet ''tab'', Log ERROR ''Run iteration failed'', Sleep 60])"
    using no_sheet_iteration[of example_float init_cache] m1 by (simp add: p del: main_loop.simps)
  then have "main_loop 2 example_float default_config (\<lambda>i. no_sheet_env) 0 init_cache
      = (None, init_cache,
         [Worksheet ''tab'', Log ERROR ''Run iteration failed'', Sleep 60,
          Worksheet ''tab'', Log ERROR ''Run iteration failed'', Sleep 60])"
    by (simp only: numeral_2_eq_2 One_nat_def)
  then show ?thesis .
qed

text \<open>
  The claim as stated fails for a poll interval that \<open>time.sleep\<close> refuses: with the
  interval -1 and no failure anywhere else, the first invocation returns normally, the
  sleep after it raises outside the \<open>try\<close> statement, and the loop ends in its first
  iteration.
\<close>

theorem scheduler_negative_interval_counterexample:
  "main_loop 3 example_float (default_config\<lparr>POLL_INTERVAL_SECS := - 1\<rparr>)
     (\<lambda>i. quiet_env [] two_pair_catalog) 0 init_cache =
     (Some ValueError, init_cache,
      [Worksheet ''tab'', ColValues 1, Log INFO ''No tickers found (only header or empty).''])"
  by (simp add: update_sheet_once_def quiet_env_def default_config_def time_sleep_def numeral_3_eq_3)

text \<open>
  An interval too long for \<open>time.sleep\<close>, a sleep the operating system refuses, and
  termination from outside end the loop as well.
\<close>

lemma main_loop_overlong_interval:
  "fst (main_loop 3 pf (default_config\<lparr>POLL_INTERVAL_SECS := 10 ^ 20\<rparr>) (\<lambda>i. no_sheet_env) 0 c)
     = Some OverflowError"
  by (simp add: update_sheet_once_def no_sheet_env_def quiet_env_def default_config_def
        time_sleep_def numeral_3_eq_3)

lemma main_loop_sleep_refused:
  "fst (main_loop 3 pf default_config (\<lambda>i. no_sheet_env\<lparr>sleep_res := Some OSError\<rparr>) 0 c)
     = Some OSError"
  by (simp add: update_sheet_once_def no_sheet_env_def quiet_env_def default_config_def
        time_sleep_def numeral_3_eq_3)

lemma main_loop_interrupted:
  "fst (main_loop 3 pf cfg (\<lambda>i. no_sheet_env\<lparr>worksheet_res := Some KeyboardInterrupt\<rparr>) 0 c)
     = Some KeyboardInterrupt"
  by (simp add: update_sheet_once_def numeral_3_eq_3)

end
